theory Spec2Isabelle
  imports Complex_Main
begin

section \<open>Data model\<close>

text \<open>
  A numpy array is its shape and its row-major (\<open>ravel()\<close>) data. Python floats are
  modelled as reals: the engine only stores, compares and copies them; non-finite floats
  are outside the model.
\<close>

record ndarray =
  shape :: "nat list"
  data :: "real list"

text \<open>\<open>np.ones(shape=s)\<close> scaled by a constant: \<open>-np.ones(..)\<close> is \<open>full s (-1)\<close>.\<close>

definition full :: "nat list \<Rightarrow> real \<Rightarrow> ndarray" where
  "full s v = \<lparr>shape = s, data = replicate (prod_list s) v\<rparr>"

text \<open>The \<open>size\<close> attribute of an array.\<close>

definition asize :: "ndarray \<Rightarrow> nat" where
  "asize a = length (data a)"

text \<open>
  An HDF5 file is a map from dataset names to datasets; the surface file holds one string
  (\<open>dir_file\<close>) and float arrays.
\<close>

datatype dataset = DStr string | DArr ndarray

type_synonym h5file = "string \<rightharpoonup> dataset"

datatype error =
    AssertionError
  | FileNotFound string
  | KeyError string
  | NoWriteIntent string
  | NameExists string
  | ShapeMismatch string
  | OSError string
  | IndexError
  | ValueError
  | TypeError
  | CudaUnavailable
  | ImproperFormat

text \<open>
  The effects a run performs, in order: dataset creation (\<open>f[k] = v\<close>), in-place commit
  (\<open>f[k][:] = v\<close>) and flush on the file at a path, perturbation of the live model,
  evaluator and eigenvalue-solver calls, and collective reductions.
\<close>

datatype ('net, 'dl) event =
    Create string string
  | Commit string string
  | Flush string
  | SetWeights "real list"
  | SetStates "real list"
  | Eval 'net 'dl
  | Eigs 'net 'dl
  | ReduceMax
  | ReduceMin

record ('net, 'dl) world =
  files :: "string \<rightharpoonup> h5file"
  trace :: "('net, 'dl) event list"

section \<open>Exceptions and state\<close>

text \<open>
  A statement runs in a world and either raises (\<open>Inl\<close>) or returns (\<open>Inr\<close>); the world
  it leaves is returned in both cases, since what was written before an exception stays
  written.
\<close>

type_synonym ('a, 's) prog = "'s \<Rightarrow> (error + 'a) \<times> 's"

definition ret :: "'a \<Rightarrow> ('a, 's) prog" where
  "ret v s = (Inr v, s)"

definition raise :: "error \<Rightarrow> ('a, 's) prog" where
  "raise e s = (Inl e, s)"

definition seq :: "('a, 's) prog \<Rightarrow> ('a \<Rightarrow> ('b, 's) prog) \<Rightarrow> ('b, 's) prog" where
  "seq m k s = (case m s of (Inl e, s') \<Rightarrow> (Inl e, s') | (Inr v, s') \<Rightarrow> k v s')"

definition lift :: "error + 'a \<Rightarrow> ('a, 's) prog" where
  "lift r s = (r, s)"

definition emit :: "('net, 'dl) event \<Rightarrow> (unit, ('net, 'dl) world) prog" where
  "emit e w = (Inr (), w\<lparr>trace := trace w @ [e]\<rparr>)"

section \<open>The HDF5 file interface (h5py)\<close>

text \<open>
  A file object is the path it was opened on and whether the mode allows writing.
  \<open>h5py.File(p, 'r')\<close> and \<open>'r+'\<close> need an existing file; \<open>'a'\<close> creates a missing one.
\<close>

record handle =
  hpath :: string
  hwritable :: bool

definition path_exists :: "string \<Rightarrow> (bool, ('net, 'dl) world) prog" where
  "path_exists p w = (Inr (files w p \<noteq> None), w)"

definition h5_open :: "string \<Rightarrow> string \<Rightarrow> (handle, ('net, 'dl) world) prog" where
  "h5_open p mode w =
     (if mode = ''a'' then
        (case files w p of
           None \<Rightarrow> (Inr \<lparr>hpath = p, hwritable = True\<rparr>, w\<lparr>files := (files w)(p \<mapsto> Map.empty)\<rparr>)
         | Some _ \<Rightarrow> (Inr \<lparr>hpath = p, hwritable = True\<rparr>, w))
      else
        (case files w p of
           None \<Rightarrow> (Inl (FileNotFound p), w)
         | Some _ \<Rightarrow> (Inr \<lparr>hpath = p, hwritable = (mode = ''r+'')\<rparr>, w)))"

text \<open>The contents of the file behind a handle (empty if the path is gone).\<close>

definition contents :: "('net, 'dl) world \<Rightarrow> handle \<Rightarrow> h5file" where
  "contents w h = (case files w (hpath h) of None \<Rightarrow> Map.empty | Some f \<Rightarrow> f)"

text \<open>\<open>k in f.keys()\<close>\<close>

definition h5_has :: "handle \<Rightarrow> string \<Rightarrow> (bool, ('net, 'dl) world) prog" where
  "h5_has h k w = (Inr (contents w h k \<noteq> None), w)"

text \<open>\<open>f[k][:]\<close>: the array stored under \<open>k\<close>; a missing name is a KeyError.\<close>

definition h5_read :: "handle \<Rightarrow> string \<Rightarrow> (ndarray, ('net, 'dl) world) prog" where
  "h5_read h k w =
     (case contents w h k of
        None \<Rightarrow> (Inl (KeyError k), w)
      | Some (DStr _) \<Rightarrow> (Inl ValueError, w)
      | Some (DArr a) \<Rightarrow> (Inr a, w))"

text \<open>
  \<open>f[k] = v\<close> creates a dataset: it needs write intent on the file, and a name that is
  not yet taken.
\<close>

definition h5_create :: "handle \<Rightarrow> string \<Rightarrow> dataset \<Rightarrow> (unit, ('net, 'dl) world) prog" where
  "h5_create h k v w =
     (if \<not> hwritable h then (Inl (NoWriteIntent k), w)
      else if contents w h k \<noteq> None then (Inl (NameExists k), w)
      else (Inr (), w\<lparr>files := (files w)(hpath h \<mapsto> (contents w h)(k \<mapsto> v)),
                       trace := trace w @ [Create (hpath h) k]\<rparr>))"

text \<open>
  \<open>f[k][:] = a\<close> overwrites an existing dataset in place. h5py would broadcast a value of
  another, compatible shape; the model reports every difference of shape as an error.
\<close>

definition h5_assign :: "handle \<Rightarrow> string \<Rightarrow> ndarray \<Rightarrow> (unit, ('net, 'dl) world) prog" where
  "h5_assign h k a w =
     (case contents w h k of
        None \<Rightarrow> (Inl (KeyError k), w)
      | Some (DStr _) \<Rightarrow> (Inl TypeError, w)
      | Some (DArr old) \<Rightarrow>
          if \<not> hwritable h then (Inl (NoWriteIntent k), w)
          else if shape old \<noteq> shape a then (Inl (ShapeMismatch k), w)
          else (Inr (), w\<lparr>files := (files w)(hpath h \<mapsto> (contents w h)(k \<mapsto> DArr a)),
                           trace := trace w @ [Commit (hpath h) k]\<rparr>))"

definition h5_flush :: "handle \<Rightarrow> (unit, ('net, 'dl) world) prog" where
  "h5_flush h = emit (Flush (hpath h))"

section \<open>Setting up the surface file\<close>

text \<open>
  The parsed configuration object. \<open>x_str\<close> and \<open>y_str\<close> are the resolution strings
  \<open>args.x\<close> and \<open>args.y\<close>; the y fields are \<open>None\<close> when no y axis was asked for.
\<close>

record args =
  x_str :: string
  y_str :: string
  xmin :: real
  xmax :: real
  xnum :: int
  ymin :: "real option"
  ymax :: "real option"
  ynum :: "int option"
  cuda :: bool
  mpi :: bool
  ngpu :: nat
  dir_type :: string

text \<open>Truth value of a Python string: the empty string is false.\<close>

definition truthy :: "string \<Rightarrow> bool" where
  "truthy s = (s \<noteq> [])"

text \<open>
  \<open>np.linspace(start, stop, num=n)\<close>: \<open>n\<close> evenly spaced samples with both end points,
  the last one set to \<open>stop\<close>; a negative \<open>n\<close> is a ValueError.
\<close>

definition linspace :: "real \<Rightarrow> real \<Rightarrow> int \<Rightarrow> error + ndarray" where
  "linspace start stop num =
     (if num < 0 then Inl ValueError
      else
        let n = nat num;
            step = (stop - start) / real (n - 1);
            ys = (if n = 0 then []
                  else if n = 1 then [start]
                  else map (\<lambda>i. start + real i * step) [0..<n - 1] @ [stop])
        in Inr \<lparr>shape = [n], data = ys\<rparr>)"

text \<open>\<open>np.linspace\<close> on arguments that may be \<open>None\<close> (a TypeError).\<close>

definition linspace_opt :: "real option \<Rightarrow> real option \<Rightarrow> int option \<Rightarrow> error + ndarray" where
  "linspace_opt start stop num =
     (case (start, stop, num) of
        (Some a, Some b, Some n) \<Rightarrow> linspace a b n
      | _ \<Rightarrow> Inl TypeError)"

text \<open>
  \<open>setup_surface_file\<close> returns \<open>None\<close> when it finds the file set up, and the file
  name after writing the back-reference and the axes. The file object of the test is
  closed only on the path that returns \<open>None\<close>: when the file exists and is not set up,
  it is still open, read-only, at \<open>h5py.File(surf_file, 'a')\<close>, and HDF5 refuses to open
  for writing a file that the process holds open read-only (an OSError), so nothing is
  written on that path.
\<close>

definition setup_surface_file ::
  "args \<Rightarrow> string \<Rightarrow> string \<Rightarrow> (string option, ('net, 'dl) world) prog" where
  "setup_surface_file a surf_file dir_file =
     seq (path_exists surf_file) (\<lambda>ex.
     seq (if ex then
            seq (h5_open surf_file ''r'') (\<lambda>f.
            seq (h5_has f ''ycoordinates'') (\<lambda>hy.
            seq (h5_has f ''xcoordinates'') (\<lambda>hx.
            ret ((truthy (y_str a) \<and> hy) \<or> hx))))
          else ret False) (\<lambda>skip.
     if skip then ret None
     else
       seq (if ex then raise (OSError surf_file) else h5_open surf_file ''a'') (\<lambda>f.
       seq (h5_create f ''dir_file'' (DStr dir_file)) (\<lambda>_.
       seq (lift (linspace (xmin a) (xmax a) (xnum a))) (\<lambda>xcoordinates.
       seq (h5_create f ''xcoordinates'' (DArr xcoordinates)) (\<lambda>_.
       seq (if truthy (y_str a) then
              seq (lift (linspace_opt (ymin a) (ymax a) (ynum a))) (\<lambda>ycoordinates.
              h5_create f ''ycoordinates'' (DArr ycoordinates))
            else ret ()) (\<lambda>_.
       ret (Some surf_file))))))))"

section \<open>Loops\<close>

text \<open>
  A \<open>for\<close> loop over a list: the body takes the element and the loop-carried variables
  and returns them updated; an exception in the body ends the loop.
\<close>

fun foreach :: "('a \<Rightarrow> 'b \<Rightarrow> ('b, 's) prog) \<Rightarrow> 'a list \<Rightarrow> 'b \<Rightarrow> ('b, 's) prog" where
  "foreach body [] acc s = (Inr acc, s)"
| "foreach body (x # xs) acc s =
     (case body x acc s of
        (Inl e, s') \<Rightarrow> (Inl e, s')
      | (Inr acc', s') \<Rightarrow> foreach body xs acc' s')"

section \<open>Collaborators outside the engine\<close>

text \<open>
  The perturbation functions \<open>set_weights\<close> and \<open>set_states\<close> and the eigenvalue solver
  \<open>min_max_hessian_eigs\<close> (which returns the largest and the smallest eigenvalue) are
  imported by the engine; they are parameters here. Both perturbation functions change
  the live model in place; the model returns the changed one.
\<close>

record ('net, 'w, 's, 'd, 'dl) externals =
  set_weights :: "'net \<Rightarrow> 'w \<Rightarrow> 'd \<Rightarrow> real list \<Rightarrow> 'net"
  set_states :: "'net \<Rightarrow> 's \<Rightarrow> 'd \<Rightarrow> real list \<Rightarrow> 'net"
  min_max_hessian_eigs :: "'net \<Rightarrow> 'dl \<Rightarrow> real \<times> real"

text \<open>
  The communicator of one worker: its rank, the number of workers, and what the
  collective layer hands back: \<open>exchange c n a\<close> is the array this worker receives from
  its \<open>n\<close>-th collective call (counted from 0) when it contributes \<open>a\<close>. What the peers
  contribute is not under this worker's control, so it is left open.
\<close>

record comm =
  comm_rank :: nat
  comm_size :: nat
  exchange :: "nat \<Rightarrow> ndarray \<Rightarrow> ndarray"

fun is_collective :: "('net, 'dl) event \<Rightarrow> bool" where
  "is_collective ReduceMax = True"
| "is_collective ReduceMin = True"
| "is_collective _ = False"

definition collectives :: "('net, 'dl) event list \<Rightarrow> nat" where
  "collectives tr = length (filter is_collective tr)"

definition reduce_max :: "comm \<Rightarrow> ndarray \<Rightarrow> (ndarray, ('net, 'dl) world) prog" where
  "reduce_max c a w =
     (Inr (exchange c (collectives (trace w)) a), w\<lparr>trace := trace w @ [ReduceMax]\<rparr>)"

definition reduce_min :: "comm \<Rightarrow> ndarray \<Rightarrow> (ndarray, ('net, 'dl) world) prog" where
  "reduce_min c a w =
     (Inr (exchange c (collectives (trace w)) a), w\<lparr>trace := trace w @ [ReduceMin]\<rparr>)"

text \<open>
  Modelled from the spec: \<open>get_job_indices\<close> of the scheduler module, which is not among
  the sources. The unfilled cells are the flat indices whose value equals the
  initialisation value \<open>-1\<close> of the field passed in; worker \<open>r\<close> of \<open>P\<close> receives every
  \<open>P\<close>-th unfilled index starting at offset \<open>r\<close>, in order; the coordinate of flat index
  \<open>i\<close> is \<open>x[i]\<close> on a 1-D grid and \<open>(x[i div Y], y[i mod Y])\<close> on a 2-D grid of shape
  \<open>(X, Y)\<close>. The third component lists the number of indices of every worker, which is
  how the engine uses it (\<open>max(inds_nums)\<close>).
\<close>

definition unfilled :: "ndarray \<Rightarrow> nat list" where
  "unfilled vals = filter (\<lambda>i. data vals ! i = -1) [0..<asize vals]"

definition round_robin :: "nat \<Rightarrow> nat \<Rightarrow> 'a list \<Rightarrow> 'a list" where
  "round_robin P r xs = map (\<lambda>j. xs ! j) (filter (\<lambda>j. j mod P = r) [0..<length xs])"

definition coord_of :: "ndarray \<Rightarrow> ndarray option \<Rightarrow> nat \<Rightarrow> real list" where
  "coord_of xs ys i =
     (case ys of
        None \<Rightarrow> [data xs ! i]
      | Some ys' \<Rightarrow> [data xs ! (i div asize ys'), data ys' ! (i mod asize ys')])"

definition get_job_indices ::
  "ndarray \<Rightarrow> ndarray \<Rightarrow> ndarray option \<Rightarrow> comm \<Rightarrow> nat list \<times> real list list \<times> nat list" where
  "get_job_indices vals xs ys c =
     (let todo = unfilled vals;
          inds = round_robin (comm_size c) (comm_rank c) todo
      in (inds, map (coord_of xs ys) inds,
          map (\<lambda>r. length (round_robin (comm_size c) r todo)) [0..<comm_size c]))"

section \<open>The crunch engine\<close>

type_synonym fields = "string \<rightharpoonup> ndarray"

text \<open>\<open>len(a)\<close> of an array: its first dimension; a 0-dimensional array has none.\<close>

definition alen :: "ndarray \<Rightarrow> error + nat" where
  "alen a = (case shape a of [] \<Rightarrow> Inl TypeError | n # _ \<Rightarrow> Inr n)"

text \<open>
  \<open>shape = xcoordinates.shape if ycoordinates is None else (len(xcoordinates), len(ycoordinates))\<close>
\<close>

definition grid_shape :: "ndarray \<Rightarrow> ndarray option \<Rightarrow> error + nat list" where
  "grid_shape xs ys =
     (case ys of
        None \<Rightarrow> Inr (shape xs)
      | Some ys' \<Rightarrow>
          (case alen xs of
             Inl e \<Rightarrow> Inl e
           | Inr nx \<Rightarrow> (case alen ys' of Inl e \<Rightarrow> Inl e | Inr ny \<Rightarrow> Inr [nx, ny])))"

text \<open>
  The opening lines shared by the four crunch functions: open the file (read-write for
  rank 0, read-only otherwise) and read the axes.
\<close>

definition open_surface ::
  "string \<Rightarrow> nat \<Rightarrow> (handle \<times> ndarray \<times> ndarray option, ('net, 'dl) world) prog" where
  "open_surface surf_file rank =
     seq (h5_open surf_file (if rank = 0 then ''r+'' else ''r'')) (\<lambda>f.
     seq (h5_read f ''xcoordinates'') (\<lambda>xcoordinates.
     seq (h5_has f ''ycoordinates'') (\<lambda>hy.
     seq (if hy then seq (h5_read f ''ycoordinates'') (\<lambda>yc. ret (Some yc)) else ret None)
       (\<lambda>ycoordinates.
     ret (f, xcoordinates, ycoordinates)))))"

text \<open>
  One round of the field loop of \<open>crunch\<close> and \<open>crunch_2\<close>: a loss field that is absent
  is created, with its accuracy field, in memory and in the file; otherwise both are read.
\<close>

definition load_field ::
  "handle \<Rightarrow> nat list \<Rightarrow> string \<times> string \<Rightarrow> fields \<times> fields \<Rightarrow>
   (fields \<times> fields, ('net, 'dl) world) prog" where
  "load_field f shp keys la =
     (case (keys, la) of ((loss_key, acc_key), (losses, accuracies)) \<Rightarrow>
        seq (h5_has f loss_key) (\<lambda>present.
        if \<not> present then
          seq (h5_create f loss_key (DArr (full shp (-1)))) (\<lambda>_.
          seq (h5_create f acc_key (DArr (full shp (-1)))) (\<lambda>_.
          ret (losses(loss_key \<mapsto> full shp (-1)), accuracies(acc_key \<mapsto> full shp (-1)))))
        else
          seq (h5_read f loss_key) (\<lambda>l.
          seq (h5_read f acc_key) (\<lambda>a.
          ret (losses(loss_key \<mapsto> l), accuracies(acc_key \<mapsto> a))))))"

text \<open>Dictionary and list look-ups that raise.\<close>

definition lookup :: "fields \<Rightarrow> string \<Rightarrow> (ndarray, 's) prog" where
  "lookup m k = (case m k of None \<Rightarrow> raise (KeyError k) | Some a \<Rightarrow> ret a)"

definition first_key :: "string list \<Rightarrow> (string, 's) prog" where
  "first_key ks = (case ks of [] \<Rightarrow> raise IndexError | k # _ \<Rightarrow> ret k)"

definition item :: "'a list \<Rightarrow> nat \<Rightarrow> ('a, 's) prog" where
  "item xs i = (if i < length xs then ret (xs ! i) else raise IndexError)"

text \<open>\<open>a.ravel()[ind] = v\<close>, in place.\<close>

definition ravel_set :: "ndarray \<Rightarrow> nat \<Rightarrow> real \<Rightarrow> (ndarray, 's) prog" where
  "ravel_set a ind v =
     (if ind < asize a then ret (a\<lparr>data := (data a)[ind := v]\<rparr>) else raise IndexError)"

text \<open>
  Loading the weights of a coordinate into the net: \<open>weights\<close> and \<open>states\<close> select the
  perturbation function; the source has no \<open>else\<close> branch.
\<close>

definition load_weights ::
  "('net, 'w, 's, 'd, 'dl) externals \<Rightarrow> args \<Rightarrow> 'net \<Rightarrow> 'w \<Rightarrow> 's \<Rightarrow> 'd \<Rightarrow> real list \<Rightarrow>
   ('net, ('net, 'dl) world) prog" where
  "load_weights ext a net w s d coord =
     (if dir_type a = ''weights'' then
        seq (emit (SetWeights coord)) (\<lambda>_. ret (set_weights ext net w d coord))
      else if dir_type a = ''states'' then
        seq (emit (SetStates coord)) (\<lambda>_. ret (set_states ext net s d coord))
      else ret net)"

text \<open>The evaluator call, recorded.\<close>

definition evaluate ::
  "('net \<Rightarrow> 'dl \<Rightarrow> real \<times> real) \<Rightarrow> 'net \<Rightarrow> 'dl \<Rightarrow> (real \<times> real, ('net, 'dl) world) prog" where
  "evaluate evaluator net dl = seq (emit (Eval net dl)) (\<lambda>_. ret (evaluator net dl))"

text \<open>
  The inner loop of \<open>crunch\<close> for one cell: evaluate on each dataloader, record the
  result at the flat index, and reduce both arrays.
\<close>

definition crunch_eval ::
  "('net \<Rightarrow> 'dl \<Rightarrow> real \<times> real) \<Rightarrow> comm \<Rightarrow> 'net \<Rightarrow> nat \<Rightarrow> 'dl \<times> string \<times> string \<Rightarrow>
   fields \<times> fields \<Rightarrow> (fields \<times> fields, ('net, 'dl) world) prog" where
  "crunch_eval evaluator c net ind dk la =
     (case (dk, la) of ((dataloader, loss_key, acc_key), (losses, accuracies)) \<Rightarrow>
        seq (evaluate evaluator net dataloader) (\<lambda>(loss, acc).
        seq (lookup losses loss_key) (\<lambda>l.
        seq (ravel_set l ind loss) (\<lambda>l'.
        seq (lookup accuracies acc_key) (\<lambda>a.
        seq (ravel_set a ind acc) (\<lambda>a'.
        seq (reduce_max c l') (\<lambda>lr.
        seq (reduce_max c a') (\<lambda>ar.
        ret (losses(loss_key \<mapsto> lr), accuracies(acc_key \<mapsto> ar))))))))))"

text \<open>Writing every field back: \<open>f[loss_key][:] = ...; f[acc_key][:] = ...\<close> for each pair.\<close>

definition commit_pair ::
  "handle \<Rightarrow> fields \<times> fields \<Rightarrow> string \<times> string \<Rightarrow> unit \<Rightarrow> (unit, ('net, 'dl) world) prog" where
  "commit_pair f la keys u =
     (case (keys, la) of ((loss_key, acc_key), (losses, accuracies)) \<Rightarrow>
        seq (lookup losses loss_key) (\<lambda>l.
        seq (h5_assign f loss_key l) (\<lambda>_.
        seq (lookup accuracies acc_key) (\<lambda>a.
        h5_assign f acc_key a))))"

definition commit_fields ::
  "handle \<Rightarrow> string list \<Rightarrow> string list \<Rightarrow> fields \<times> fields \<Rightarrow> (unit, ('net, 'dl) world) prog" where
  "commit_fields f loss_keys acc_keys la =
     seq (foreach (commit_pair f la) (zip loss_keys acc_keys) ()) (\<lambda>_. h5_flush f)"

text \<open>The body of the main loop of \<open>crunch\<close>, for the index \<open>ind\<close> at coordinate \<open>coord\<close>.\<close>

definition crunch_cell ::
  "('net, 'w, 's, 'd, 'dl) externals \<Rightarrow> args \<Rightarrow> ('net \<Rightarrow> 'dl \<Rightarrow> real \<times> real) \<Rightarrow> comm \<Rightarrow> nat \<Rightarrow>
   handle \<Rightarrow> 'w \<Rightarrow> 's \<Rightarrow> 'd \<Rightarrow> 'dl list \<Rightarrow> string list \<Rightarrow> string list \<Rightarrow>
   nat \<times> real list \<Rightarrow> 'net \<times> fields \<times> fields \<Rightarrow>
   ('net \<times> fields \<times> fields, ('net, 'dl) world) prog" where
  "crunch_cell ext a evaluator c rank f w s d dataloaders loss_keys acc_keys ic st =
     (case (ic, st) of ((ind, coord), (net, la)) \<Rightarrow>
        seq (load_weights ext a net w s d coord) (\<lambda>net'.
        seq (foreach (crunch_eval evaluator c net' ind)
               (zip dataloaders (zip loss_keys acc_keys)) la) (\<lambda>la'.
        seq (if rank = 0 then commit_fields f loss_keys acc_keys la' else ret ()) (\<lambda>_.
        ret (net', la')))))"

text \<open>
  One extra round of a worker that has finished its cells: it reduces the arrays of the
  last key pair.
\<close>

definition crunch_idle ::
  "comm \<Rightarrow> string \<Rightarrow> string \<Rightarrow> nat \<Rightarrow> fields \<times> fields \<Rightarrow>
   (fields \<times> fields, ('net, 'dl) world) prog" where
  "crunch_idle c loss_key acc_key i la =
     (case la of (losses, accuracies) \<Rightarrow>
        seq (lookup losses loss_key) (\<lambda>l.
        seq (reduce_max c l) (\<lambda>l'.
        seq (lookup accuracies acc_key) (\<lambda>a.
        seq (reduce_max c a) (\<lambda>a'.
        ret (losses(loss_key \<mapsto> l'), accuracies(acc_key \<mapsto> a')))))))"

text \<open>\<open>max\<close> of a list of numbers; the empty list is a ValueError.\<close>

definition py_max :: "nat list \<Rightarrow> (nat, 's) prog" where
  "py_max ns = (case ns of [] \<Rightarrow> raise ValueError | n # ns' \<Rightarrow> ret (fold max ns' n))"

text \<open>
  \<open>crunch\<close>, the synchronized variant. It returns the net as the run leaves it. Printing,
  timing and clearing the display are left out.
\<close>

definition crunch ::
  "('net, 'w, 's, 'd, 'dl) externals \<Rightarrow> string \<Rightarrow> 'net \<Rightarrow> 'w \<Rightarrow> 's \<Rightarrow> 'd \<Rightarrow> 'dl list \<Rightarrow>
   string list \<Rightarrow> string list \<Rightarrow> comm \<Rightarrow> nat \<Rightarrow> args \<Rightarrow> ('net \<Rightarrow> 'dl \<Rightarrow> real \<times> real) \<Rightarrow>
   ('net, ('net, 'dl) world) prog" where
  "crunch ext surf_file net w s d dataloaders loss_keys acc_keys c rank a evaluator =
     (if \<not> (length dataloaders = length loss_keys \<and> length loss_keys = length acc_keys)
      then raise AssertionError
      else
        seq (open_surface surf_file rank) (\<lambda>(f, xcoordinates, ycoordinates).
        seq (lift (grid_shape xcoordinates ycoordinates)) (\<lambda>shp.
        seq (foreach (load_field f shp) (zip loss_keys acc_keys) (Map.empty, Map.empty)) (\<lambda>la.
        seq (first_key loss_keys) (\<lambda>k0.
        seq (lookup (fst la) k0) (\<lambda>vals.
        case get_job_indices vals xcoordinates ycoordinates c of (inds, coords, inds_nums) \<Rightarrow>
        seq (foreach (crunch_cell ext a evaluator c rank f w s d dataloaders loss_keys acc_keys)
               (zip inds coords) (net, la)) (\<lambda>(net', la').
        seq (py_max inds_nums) (\<lambda>m.
        seq (foreach (crunch_idle c (last loss_keys) (last acc_keys))
               [0..<m - length inds] la') (\<lambda>_.
        ret net')))))))))"

text \<open>
  The grid of \<open>crunch_2\<close>: the x axis itself on a 1-D grid, and
  \<open>np.array(np.meshgrid(x, y)).T.reshape(-1, 2)\<close>, the pairs \<open>(x[i], y[j])\<close> with \<open>j\<close>
  running fastest, on a 2-D grid. The axes are 1-D arrays.
\<close>

definition grid_coords :: "ndarray \<Rightarrow> ndarray option \<Rightarrow> real list list" where
  "grid_coords xs ys =
     (case ys of
        None \<Rightarrow> map (\<lambda>x. [x]) (data xs)
      | Some ys' \<Rightarrow> concat (map (\<lambda>x. map (\<lambda>y. [x, y]) (data ys')) (data xs)))"

text \<open>The inner loop of \<open>crunch_2\<close>: evaluate and record, with no reduction.\<close>

definition crunch_2_eval ::
  "('net \<Rightarrow> 'dl \<Rightarrow> real \<times> real) \<Rightarrow> 'net \<Rightarrow> nat \<Rightarrow> 'dl \<times> string \<times> string \<Rightarrow>
   fields \<times> fields \<Rightarrow> (fields \<times> fields, ('net, 'dl) world) prog" where
  "crunch_2_eval evaluator net ind dk la =
     (case (dk, la) of ((dataloader, loss_key, acc_key), (losses, accuracies)) \<Rightarrow>
        seq (evaluate evaluator net dataloader) (\<lambda>(loss, acc).
        seq (lookup losses loss_key) (\<lambda>l.
        seq (ravel_set l ind loss) (\<lambda>l'.
        seq (lookup accuracies acc_key) (\<lambda>a.
        seq (ravel_set a ind acc) (\<lambda>a'.
        ret (losses(loss_key \<mapsto> l'), accuracies(acc_key \<mapsto> a'))))))))"

definition crunch_2_cell ::
  "('net, 'w, 's, 'd, 'dl) externals \<Rightarrow> args \<Rightarrow> ('net \<Rightarrow> 'dl \<Rightarrow> real \<times> real) \<Rightarrow>
   'w \<Rightarrow> 's \<Rightarrow> 'd \<Rightarrow> 'dl list \<Rightarrow> string list \<Rightarrow> string list \<Rightarrow> real list list \<Rightarrow>
   nat \<Rightarrow> 'net \<times> fields \<times> fields \<Rightarrow>
   ('net \<times> fields \<times> fields, ('net, 'dl) world) prog" where
  "crunch_2_cell ext a evaluator w s d dataloaders loss_keys acc_keys coords ind st =
     (case st of (net, la) \<Rightarrow>
        seq (item coords ind) (\<lambda>coord.
        seq (load_weights ext a net w s d coord) (\<lambda>net'.
        seq (foreach (crunch_2_eval evaluator net' ind)
               (zip dataloaders (zip loss_keys acc_keys)) la) (\<lambda>la'.
        ret (net', la')))))"

text \<open>\<open>crunch_2\<close>, the variant without reduction.\<close>

definition crunch_2 ::
  "('net, 'w, 's, 'd, 'dl) externals \<Rightarrow> string \<Rightarrow> 'net \<Rightarrow> 'w \<Rightarrow> 's \<Rightarrow> 'd \<Rightarrow> 'dl list \<Rightarrow>
   string list \<Rightarrow> string list \<Rightarrow> comm \<Rightarrow> nat \<Rightarrow> args \<Rightarrow> ('net \<Rightarrow> 'dl \<Rightarrow> real \<times> real) \<Rightarrow>
   ('net, ('net, 'dl) world) prog" where
  "crunch_2 ext surf_file net w s d dataloaders loss_keys acc_keys c rank a evaluator =
     (if \<not> (length dataloaders = length loss_keys \<and> length loss_keys = length acc_keys)
      then raise AssertionError
      else
        seq (open_surface surf_file rank) (\<lambda>(f, xcoordinates, ycoordinates).
        seq (lift (grid_shape xcoordinates ycoordinates)) (\<lambda>shp.
        seq (foreach (load_field f shp) (zip loss_keys acc_keys) (Map.empty, Map.empty)) (\<lambda>la.
        seq (first_key loss_keys) (\<lambda>k0.
        seq (lookup (fst la) k0) (\<lambda>vals.
        seq (foreach (crunch_2_cell ext a evaluator w s d dataloaders loss_keys acc_keys
                        (grid_coords xcoordinates ycoordinates))
               [0..<asize vals] (net, la)) (\<lambda>(net', la').
        seq (commit_fields f loss_keys acc_keys la') (\<lambda>_.
        ret net'))))))))"

section \<open>The Hessian-eigenvalue engine\<close>

text \<open>
  The field step of both eigenvalue variants; it returns \<open>(min_eig, max_eig)\<close>. Absent
  fields are created in memory, and in the file by rank 0 only.
\<close>

definition load_eigs ::
  "handle \<Rightarrow> nat \<Rightarrow> ndarray \<Rightarrow> ndarray option \<Rightarrow> (ndarray \<times> ndarray, ('net, 'dl) world) prog" where
  "load_eigs f rank xcoordinates ycoordinates =
     seq (h5_has f ''min_eig'') (\<lambda>present.
     if \<not> present then
       seq (lift (grid_shape xcoordinates ycoordinates)) (\<lambda>shp.
       seq (if rank = 0 then
              seq (h5_create f ''min_eig'' (DArr (full shp 1))) (\<lambda>_.
              h5_create f ''max_eig'' (DArr (full shp (-1))))
            else ret ()) (\<lambda>_.
       ret (full shp 1, full shp (-1))))
     else
       seq (h5_read f ''min_eig'') (\<lambda>min_eig.
       seq (h5_read f ''max_eig'') (\<lambda>max_eig.
       ret (min_eig, max_eig))))"

text \<open>
  The solver call, recorded. The parameter stands for \<open>min_max_hessian_eigs\<close> with the
  evaluator, the data size and the device flags of the run.
\<close>

definition solve ::
  "('net, 'w, 's, 'd, 'dl) externals \<Rightarrow> 'net \<Rightarrow> 'dl \<Rightarrow> (real \<times> real, ('net, 'dl) world) prog" where
  "solve ext net dl = seq (emit (Eigs net dl)) (\<lambda>_. ret (min_max_hessian_eigs ext net dl))"

definition hessian_cell ::
  "('net, 'w, 's, 'd, 'dl) externals \<Rightarrow> args \<Rightarrow> comm \<Rightarrow> nat \<Rightarrow> handle \<Rightarrow> 'w \<Rightarrow> 's \<Rightarrow> 'd \<Rightarrow> 'dl \<Rightarrow>
   nat \<times> real list \<Rightarrow> 'net \<times> ndarray \<times> ndarray \<Rightarrow>
   ('net \<times> ndarray \<times> ndarray, ('net, 'dl) world) prog" where
  "hessian_cell ext a c rank f w s d dataloader ic st =
     (case (ic, st) of ((ind, coord), (net, min_eig, max_eig)) \<Rightarrow>
        seq (load_weights ext a net w s d coord) (\<lambda>net'.
        seq (solve ext net' dataloader) (\<lambda>(maxeig, mineig).
        seq (ravel_set max_eig ind maxeig) (\<lambda>mx.
        seq (ravel_set min_eig ind mineig) (\<lambda>mn.
        seq (reduce_max c mx) (\<lambda>mx'.
        seq (reduce_min c mn) (\<lambda>mn'.
        seq (if rank = 0 then
               seq (h5_assign f ''max_eig'' mx') (\<lambda>_. h5_assign f ''min_eig'' mn')
             else ret ()) (\<lambda>_.
        ret (net', mn', mx')))))))))"

definition hessian_idle ::
  "comm \<Rightarrow> nat \<Rightarrow> ndarray \<times> ndarray \<Rightarrow> (ndarray \<times> ndarray, ('net, 'dl) world) prog" where
  "hessian_idle c i mm =
     (case mm of (min_eig, max_eig) \<Rightarrow>
        seq (reduce_max c max_eig) (\<lambda>mx.
        seq (reduce_min c min_eig) (\<lambda>mn.
        ret (mn, mx))))"

text \<open>\<open>crunch_hessian_eigs\<close>, the synchronized variant.\<close>

definition crunch_hessian_eigs ::
  "('net, 'w, 's, 'd, 'dl) externals \<Rightarrow> string \<Rightarrow> 'net \<Rightarrow> 'w \<Rightarrow> 's \<Rightarrow> 'd \<Rightarrow> 'dl \<Rightarrow>
   comm \<Rightarrow> nat \<Rightarrow> args \<Rightarrow> ('net, ('net, 'dl) world) prog" where
  "crunch_hessian_eigs ext surf_file net w s d dataloader c rank a =
     seq (open_surface surf_file rank) (\<lambda>(f, xcoordinates, ycoordinates).
     seq (load_eigs f rank xcoordinates ycoordinates) (\<lambda>(min_eig, max_eig).
     case get_job_indices max_eig xcoordinates ycoordinates c of (inds, coords, inds_nums) \<Rightarrow>
     seq (foreach (hessian_cell ext a c rank f w s d dataloader)
            (zip inds coords) (net, min_eig, max_eig)) (\<lambda>(net', mm).
     seq (py_max inds_nums) (\<lambda>m.
     seq (foreach (hessian_idle c) [0..<m - length inds] mm) (\<lambda>_.
     ret net')))))"

definition hessian_2_cell ::
  "('net, 'w, 's, 'd, 'dl) externals \<Rightarrow> args \<Rightarrow> 'w \<Rightarrow> 's \<Rightarrow> 'd \<Rightarrow> 'dl \<Rightarrow> real list list \<Rightarrow>
   nat \<Rightarrow> 'net \<times> ndarray \<times> ndarray \<Rightarrow>
   ('net \<times> ndarray \<times> ndarray, ('net, 'dl) world) prog" where
  "hessian_2_cell ext a w s d dataloader coords ind st =
     (case st of (net, min_eig, max_eig) \<Rightarrow>
        seq (item coords ind) (\<lambda>coord.
        seq (load_weights ext a net w s d coord) (\<lambda>net'.
        seq (solve ext net' dataloader) (\<lambda>(maxeig, mineig).
        seq (ravel_set max_eig ind maxeig) (\<lambda>mx.
        seq (ravel_set min_eig ind mineig) (\<lambda>mn.
        ret (net', mn, mx)))))))"

text \<open>\<open>crunch_hessian_eigs_2\<close>, the variant without reduction.\<close>

definition crunch_hessian_eigs_2 ::
  "('net, 'w, 's, 'd, 'dl) externals \<Rightarrow> string \<Rightarrow> 'net \<Rightarrow> 'w \<Rightarrow> 's \<Rightarrow> 'd \<Rightarrow> 'dl \<Rightarrow>
   comm \<Rightarrow> nat \<Rightarrow> args \<Rightarrow> ('net, ('net, 'dl) world) prog" where
  "crunch_hessian_eigs_2 ext surf_file net w s d dataloader c rank a =
     seq (open_surface surf_file rank) (\<lambda>(f, xcoordinates, ycoordinates).
     seq (load_eigs f rank xcoordinates ycoordinates) (\<lambda>(min_eig, max_eig).
     seq (foreach (hessian_2_cell ext a w s d dataloader (grid_coords xcoordinates ycoordinates))
            [0..<asize max_eig] (net, min_eig, max_eig)) (\<lambda>(net', mn, mx).
     seq (h5_assign f ''max_eig'' mx) (\<lambda>_.
     seq (h5_assign f ''min_eig'' mn) (\<lambda>_.
     ret net')))))"

section \<open>Initialisation\<close>

text \<open>\<open>s.split(c)\<close>: the pieces of \<open>s\<close> between the occurrences of \<open>c\<close>.\<close>

fun split_on :: "char \<Rightarrow> string \<Rightarrow> string list" where
  "split_on c [] = [[]]"
| "split_on c (x # xs) =
     (if x = c then [] # split_on c xs
      else (case split_on c xs of [] \<Rightarrow> [[x]] | p # ps \<Rightarrow> (x # p) # ps))"

text \<open>\<open>int(r)\<close> of a float: truncation towards zero.\<close>

definition py_int :: "real \<Rightarrow> int" where
  "py_int r = (if 0 \<le> r then \<lfloor>r\<rfloor> else \<lceil>r\<rceil>)"

text \<open>
  \<open>a, b, c = [float(p) for p in s.split(':')]\<close>: every piece must be a float and there
  must be three of them. Python's \<open>float\<close> is the parameter \<open>fl\<close>, \<open>None\<close> where it raises.
\<close>

definition parse3 :: "(string \<Rightarrow> real option) \<Rightarrow> string \<Rightarrow> (real \<times> real \<times> real) option" where
  "parse3 fl str =
     (case map fl (split_on CHR '':'' str) of
        [Some a, Some b, Some c] \<Rightarrow> Some (a, b, c)
      | _ \<Rightarrow> None)"

text \<open>
  The \<open>try\<close> block that checks the plotting resolution; every exception inside it,
  the failed assertion included, is turned into the 'Improper format' exception.
\<close>

definition check_resolution :: "(string \<Rightarrow> real option) \<Rightarrow> args \<Rightarrow> error + args" where
  "check_resolution fl a =
     (case parse3 fl (x_str a) of
        None \<Rightarrow> Inl ImproperFormat
      | Some (x0, x1, xn) \<Rightarrow>
          let a1 = a\<lparr>xmin := x0, xmax := x1, xnum := py_int xn,
                     ymin := None, ymax := None, ynum := None\<rparr>
          in if truthy (y_str a) then
               (case parse3 fl (y_str a) of
                  None \<Rightarrow> Inl ImproperFormat
                | Some (y0, y1, yn) \<Rightarrow>
                    if y0 \<noteq> 0 \<and> y1 \<noteq> 0 \<and> yn \<noteq> 0
                    then Inr (a1\<lparr>ymin := Some y0, ymax := Some y1, ynum := Some (py_int yn)\<rparr>)
                    else Inl ImproperFormat)
             else Inr a1)"

text \<open>
  What the process finds on its machine: Python's \<open>float\<close>, whether CUDA is available,
  and the communicator \<open>setup_MPI()\<close> returns.
\<close>

record platform =
  py_float :: "string \<Rightarrow> real option"
  cuda_available :: bool
  setup_MPI :: comm

text \<open>
  Environment setup of both drivers: the communicator and rank, then the device check.
\<close>

definition setup_environment ::
  "platform \<Rightarrow> args \<Rightarrow> (comm option \<times> nat, ('net, 'dl) world) prog" where
  "setup_environment pf a =
     (let cr = (if mpi a then (Some (setup_MPI pf), comm_rank (setup_MPI pf)) else (None, 0))
      in if cuda a \<and> \<not> cuda_available pf then raise CudaUnavailable else ret cr)"

definition init_plot_surface ::
  "platform \<Rightarrow> args \<Rightarrow> (args \<times> comm option \<times> nat, ('net, 'dl) world) prog" where
  "init_plot_surface pf a =
     seq (setup_environment pf a) (\<lambda>(c, rank).
     seq (lift (check_resolution (py_float pf) a)) (\<lambda>a'.
     ret (a', c, rank)))"

text \<open>
  \<open>plot_surface\<close> and \<open>plot_hessian_eigen\<close> initialise first; \<open>rest\<close> stands for the
  statements that follow in each driver (loading the model, setting up the direction and
  surface files, crunching, plotting), which run only if initialisation returns.
\<close>

definition plot_surface ::
  "platform \<Rightarrow> args \<Rightarrow> (args \<times> comm option \<times> nat \<Rightarrow> ('r, ('net, 'dl) world) prog) \<Rightarrow>
   ('r, ('net, 'dl) world) prog" where
  "plot_surface pf a rest = seq (init_plot_surface pf a) rest"

definition plot_hessian_eigen ::
  "platform \<Rightarrow> args \<Rightarrow> (args \<times> comm option \<times> nat \<Rightarrow> ('r, ('net, 'dl) world) prog) \<Rightarrow>
   ('r, ('net, 'dl) world) prog" where
  "plot_hessian_eigen pf a rest =
     seq (setup_environment pf a) (\<lambda>(c, rank).
     seq (lift (check_resolution (py_float pf) a)) (\<lambda>a'.
     rest (a', c, rank)))"

section \<open>Example inputs\<close>

text \<open>
  A reading of signed decimal literals (\<open>-1\<close>, \<open>0.5\<close>, \<open>51\<close>), on which it agrees with
  Python's \<open>float\<close>; it serves as \<open>float\<close> in the examples below.
\<close>

definition digit :: "char \<Rightarrow> nat option" where
  "digit ch =
     (if ch = CHR ''0'' then Some 0 else if ch = CHR ''1'' then Some 1
      else if ch = CHR ''2'' then Some 2 else if ch = CHR ''3'' then Some 3
      else if ch = CHR ''4'' then Some 4 else if ch = CHR ''5'' then Some 5
      else if ch = CHR ''6'' then Some 6 else if ch = CHR ''7'' then Some 7
      else if ch = CHR ''8'' then Some 8 else if ch = CHR ''9'' then Some 9
      else None)"

fun digits :: "nat \<Rightarrow> string \<Rightarrow> nat option" where
  "digits n [] = Some n"
| "digits n (ch # cs) = (case digit ch of None \<Rightarrow> None | Some k \<Rightarrow> digits (10 * n + k) cs)"

definition decimal :: "string \<Rightarrow> real option" where
  "decimal str =
     (let ip = takeWhile (\<lambda>ch. ch \<noteq> CHR ''.'') str;
          fp = drop (Suc (length ip)) str
      in if ip = [] \<and> fp = [] then None
         else case (digits 0 ip, digits 0 fp) of
                (Some i, Some f) \<Rightarrow> Some (real i + real f / 10 ^ length fp)
              | _ \<Rightarrow> None)"

definition float_literal :: "string \<Rightarrow> real option" where
  "float_literal str =
     (case str of
        [] \<Rightarrow> None
      | ch # cs \<Rightarrow>
          if ch = CHR ''-'' then map_option uminus (decimal cs)
          else if ch = CHR ''+'' then decimal cs
          else decimal str)"

definition identity_comm :: "nat \<Rightarrow> nat \<Rightarrow> comm" where
  "identity_comm r n = \<lparr>comm_rank = r, comm_size = n, exchange = (\<lambda>i arr. arr)\<rparr>"

definition example_platform :: platform where
  "example_platform =
     \<lparr>py_float = float_literal, cuda_available = False, setup_MPI = identity_comm 0 1\<rparr>"

definition example_args :: "string \<Rightarrow> string \<Rightarrow> string \<Rightarrow> args" where
  "example_args xs ys dt =
     \<lparr>x_str = xs, y_str = ys, xmin = 0, xmax = 0, xnum = 0,
      ymin = None, ymax = None, ynum = None,
      cuda = False, mpi = False, ngpu = 1, dir_type = dt\<rparr>"

definition empty_world :: "(real, nat) world" where
  "empty_world = \<lparr>files = Map.empty, trace = []\<rparr>"

text \<open>The configuration \<open>init_plot_surface\<close> leaves for given resolution strings.\<close>

definition parsed_args :: "string \<Rightarrow> string \<Rightarrow> string \<Rightarrow> args" where
  "parsed_args xs ys dt =
     (case check_resolution float_literal (example_args xs ys dt) of
        Inl _ \<Rightarrow> example_args xs ys dt
      | Inr a \<Rightarrow> a)"

text \<open>The file object a worker of the given rank holds on the surface file.\<close>

definition surface_handle :: "string \<Rightarrow> nat \<Rightarrow> handle" where
  "surface_handle p rank = \<lparr>hpath = p, hwritable = (rank = 0)\<rparr>"


definition store_2cells :: "(real, nat) world" where
  "store_2cells =
     \<lparr>files = [''s.h5'' \<mapsto> [''dir_file'' \<mapsto> DStr ''d.h5'',
                               ''xcoordinates'' \<mapsto> DArr \<lparr>shape = [2], data = [-1, 1]\<rparr>]],
      trace = []\<rparr>"

text \<open>
  A model of one parameter: the perturbation moves it from the base along the direction,
  the loss is its square.
\<close>

definition example_ext :: "(real, real, real, real, nat) externals" where
  "example_ext =
     \<lparr>set_weights = (\<lambda>net w d coord. w + d * sum_list coord),
      set_states = (\<lambda>net s d coord. s + d * sum_list coord),
      min_max_hessian_eigs = (\<lambda>net dl. (net * net + 2, net * net + 1))\<rparr>"

definition example_evaluator :: "real \<Rightarrow> nat \<Rightarrow> real \<times> real" where
  "example_evaluator net dl = (net * net, 1 / 2)"

definition store_done :: "(real, nat) world" where
  "store_done =
     \<lparr>files = [''s.h5'' \<mapsto> [''dir_file'' \<mapsto> DStr ''d.h5'',
                               ''xcoordinates'' \<mapsto> DArr \<lparr>shape = [2], data = [-1, 1]\<rparr>,
                               ''train_loss'' \<mapsto> DArr \<lparr>shape = [2], data = [1, 1]\<rparr>,
                               ''train_acc'' \<mapsto> DArr \<lparr>shape = [2], data = [1 / 2, 1 / 2]\<rparr>,
                               ''min_eig'' \<mapsto> DArr \<lparr>shape = [2], data = [2, 2]\<rparr>,
                               ''max_eig'' \<mapsto> DArr \<lparr>shape = [2], data = [3, 3]\<rparr>]],
      trace = []\<rparr>"


text \<open>A surface file of three cells with two pairs of fields, nothing evaluated yet.\<close>

definition store_pending :: "(real, nat) world" where
  "store_pending =
     \<lparr>files = [''s.h5'' \<mapsto> [''dir_file'' \<mapsto> DStr ''d.h5'',
                               ''xcoordinates'' \<mapsto> DArr \<lparr>shape = [3], data = [-1, 0, 1]\<rparr>,
                               ''train_loss'' \<mapsto> DArr \<lparr>shape = [3], data = [-1, -1, -1]\<rparr>,
                               ''train_acc'' \<mapsto> DArr \<lparr>shape = [3], data = [-1, -1, -1]\<rparr>,
                               ''test_loss'' \<mapsto> DArr \<lparr>shape = [3], data = [-1, -1, -1]\<rparr>,
                               ''test_acc'' \<mapsto> DArr \<lparr>shape = [3], data = [-1, -1, -1]\<rparr>]],
      trace = []\<rparr>"


section \<open>Events of interest\<close>

text \<open>
  Evaluator calls (\<open>Eval\<close>, and \<open>Eigs\<close> for the eigenvalue solver, which calls the
  evaluator inside), commits to the file (\<open>Commit\<close> and \<open>Flush\<close>), the events of a
  run that leaves the model \<open>n\<close> as it is, and writes of any kind to the file (\<open>Create\<close>
  as well).
\<close>

fun is_call :: "('net, 'dl) event \<Rightarrow> bool" where
  "is_call (Eval _ _) = True"
| "is_call (Eigs _ _) = True"
| "is_call _ = False"

definition evaluations :: "('net, 'dl) event list \<Rightarrow> nat" where
  "evaluations tr = length (filter is_call tr)"

fun is_commit :: "('net, 'dl) event \<Rightarrow> bool" where
  "is_commit (Commit _ _) = True"
| "is_commit (Flush _) = True"
| "is_commit _ = False"


fun is_write :: "('net, 'dl) event \<Rightarrow> bool" where
  "is_write (Create _ _) = True"
| "is_write (Commit _ _) = True"
| "is_write (Flush _) = True"
| "is_write _ = False"





section \<open>Basic facts\<close>


lemma seq_raise: "seq (raise e) k = raise e"
  by (rule ext) (simp add: seq_def raise_def)


lemma seq_lift_Inl: "seq (lift (Inl e)) k = raise e"
  by (rule ext) (simp add: seq_def lift_def raise_def)

lemma seq_Inr: "m s = (Inr v, s') \<Longrightarrow> seq m k s = k v s'"
  by (simp add: seq_def)

lemma seq_Inl: "m s = (Inl e, s') \<Longrightarrow> seq m k s = (Inl e, s')"
  by (simp add: seq_def)

section \<open>Resolution strings\<close>

text \<open>
  A resolution string has the form \<open>min:max:num\<close> when splitting it at the colons gives
  three pieces and \<open>float\<close> accepts each of them.
\<close>

definition well_formed :: "(string \<Rightarrow> real option) \<Rightarrow> string \<Rightarrow> bool" where
  "well_formed fl str =
     (length (split_on CHR '':'' str) = 3 \<and> (\<forall>p \<in> set (split_on CHR '':'' str). fl p \<noteq> None))"

lemma parse3_None_iff: "parse3 fl str = None \<longleftrightarrow> \<not> well_formed fl str"
proof (cases "split_on CHR '':'' str")
  case Nil
  then show ?thesis by (simp add: parse3_def well_formed_def)
next
  case (Cons p1 r1)
  show ?thesis
  proof (cases r1)
    case Nil
    with Cons show ?thesis by (simp add: parse3_def well_formed_def split: option.splits)
  next
    case (Cons p2 r2)
    note c2 = this
    show ?thesis
    proof (cases r2)
      case Nil
      with c2 \<open>split_on CHR '':'' str = p1 # r1\<close> show ?thesis
        by (simp add: parse3_def well_formed_def split: option.splits)
    next
      case (Cons p3 r3)
      with c2 \<open>split_on CHR '':'' str = p1 # r1\<close> show ?thesis
        by (cases r3) (auto simp: parse3_def well_formed_def split: option.splits)
    qed
  qed
qed

lemma check_resolution_malformed:
  assumes "\<not> well_formed fl (x_str a) \<or> (truthy (y_str a) \<and> \<not> well_formed fl (y_str a))"
  shows "check_resolution fl a = Inl ImproperFormat"
  using assms
  by (auto simp: check_resolution_def parse3_None_iff [symmetric] Let_def split: option.splits)

lemma check_resolution_zero:
  assumes "parse3 fl (y_str a) = Some (y0, y1, yn)" and "y0 = 0 \<or> y1 = 0 \<or> yn = 0"
    and "truthy (y_str a)"
  shows "check_resolution fl a = Inl ImproperFormat"
  using assms by (auto simp: check_resolution_def Let_def split: option.splits)

lemma parse3_truthy: "parse3 fl str = Some r \<Longrightarrow> truthy str"
  by (cases str) (auto simp: parse3_def truthy_def split: option.splits)

lemma setup_environment_cases:
  "setup_environment pf a w =
     (if cuda a \<and> \<not> cuda_available pf then (Inl CudaUnavailable, w)
      else (Inr (if mpi a then (Some (setup_MPI pf), comm_rank (setup_MPI pf)) else (None, 0)), w))"
  by (simp add: setup_environment_def raise_def ret_def Let_def)

text \<open>
  C7. A malformed x string, or a malformed y string when one is given (\<open>args.y\<close> is not
  empty), makes initialisation raise: the device error when CUDA was asked for and is
  missing, the 'Improper format' error otherwise. The world is the one it started in,
  so nothing was read or written before the exception, and the statements after the
  check in \<open>plot_hessian_eigen\<close> do not run.
\<close>

theorem malformed_resolution_fails_fast:
  assumes "\<not> well_formed (py_float pf) (x_str a) \<or>
           (y_str a \<noteq> [] \<and> \<not> well_formed (py_float pf) (y_str a))"
  shows "init_plot_surface pf a w =
           (Inl (if cuda a \<and> \<not> cuda_available pf then CudaUnavailable else ImproperFormat), w) \<and>
         plot_hessian_eigen pf a rest w =
           (Inl (if cuda a \<and> \<not> cuda_available pf then CudaUnavailable else ImproperFormat), w)"
proof -
  from assms have bad: "check_resolution (py_float pf) a = Inl ImproperFormat"
    by (intro check_resolution_malformed) (simp add: truthy_def)
  show ?thesis
    by (simp add: init_plot_surface_def plot_hessian_eigen_def seq_def
        setup_environment_cases bad lift_def)
qed

theorem malformed_resolution_fails_fast_witness:
  "\<not> well_formed float_literal ''-1:1'' \<and>
   init_plot_surface example_platform (example_args ''-1:1'' [] ''weights'') empty_world =
     (Inl ImproperFormat, empty_world) \<and>
   plot_hessian_eigen example_platform (example_args ''-1:1'' [] ''weights'')
     (\<lambda>r. ret (0::nat)) empty_world = (Inl ImproperFormat, empty_world)"
proof -
  have bad: "\<not> well_formed float_literal ''-1:1''"
    by (simp add: well_formed_def)
  have "\<not> well_formed (py_float example_platform) (x_str (example_args ''-1:1'' [] ''weights'')) \<or>
        (y_str (example_args ''-1:1'' [] ''weights'') \<noteq> [] \<and>
         \<not> well_formed (py_float example_platform) (y_str (example_args ''-1:1'' [] ''weights'')))"
    using bad by (simp add: example_platform_def example_args_def)
  from malformed_resolution_fails_fast [OF this, of empty_world "\<lambda>r. ret (0::nat)"] bad
  show ?thesis by (simp add: example_platform_def example_args_def)
qed

text \<open>
  C9. A y string of the form \<open>min:max:num\<close> in which one of the three numbers is 0 is
  rejected with the 'Improper format' error, whatever the x string is, once the device
  check has passed: the assertion reads the number 0 as a missing argument.
\<close>

theorem zero_in_y_resolution_rejected:
  assumes "parse3 (py_float pf) (y_str a) = Some (y0, y1, yn)"
    and "y0 = 0 \<or> y1 = 0 \<or> yn = 0"
    and "cuda a \<Longrightarrow> cuda_available pf"
  shows "well_formed (py_float pf) (y_str a) \<and>
         init_plot_surface pf a w = (Inl ImproperFormat, w) \<and>
         plot_hessian_eigen pf a rest w = (Inl ImproperFormat, w)"
proof -
  from assms(1) have wf: "well_formed (py_float pf) (y_str a)"
    using parse3_None_iff [of "py_float pf" "y_str a"] by simp
  from assms(1,2) have bad: "check_resolution (py_float pf) a = Inl ImproperFormat"
    by (rule check_resolution_zero) (rule parse3_truthy [OF assms(1)])
  from assms(3) have dev: "\<not> (cuda a \<and> \<not> cuda_available pf)" by blast
  show ?thesis
    using wf dev
    by (simp add: init_plot_surface_def plot_hessian_eigen_def seq_def
        setup_environment_cases bad lift_def)
qed

theorem zero_in_y_resolution_rejected_witness:
  "parse3 float_literal ''0:1:51'' = Some (0, 1, 51) \<and>
   init_plot_surface example_platform (example_args ''-1:1:51'' ''0:1:51'' ''weights'') empty_world =
     (Inl ImproperFormat, empty_world) \<and>
   plot_hessian_eigen example_platform (example_args ''-1:1:51'' ''0:1:51'' ''weights'')
     (\<lambda>r. ret (0::nat)) empty_world = (Inl ImproperFormat, empty_world)"
proof -
  have p: "parse3 float_literal ''0:1:51'' = Some (0, 1, 51)"
    by (simp add: parse3_def float_literal_def decimal_def digit_def Let_def)
  have "parse3 (py_float example_platform)
          (y_str (example_args ''-1:1:51'' ''0:1:51'' ''weights'')) = Some (0, 1, 51)"
    using p by (simp add: example_platform_def example_args_def)
  from zero_in_y_resolution_rejected [OF this, of empty_world "\<lambda>r. ret (0::nat)"] p
  show ?thesis by (simp add: example_platform_def example_args_def)
qed

section \<open>The surface file\<close>

lemma contents_upd [simp]:
  "contents (trace_update g s) h = contents s h"
  "contents (files_update (\<lambda>_. F) s) h = (case F (hpath h) of None \<Rightarrow> Map.empty | Some g \<Rightarrow> g)"
  by (simp_all add: contents_def)

lemma h5_create_ok:
  "hwritable h \<Longrightarrow> contents w h k = None \<Longrightarrow>
   h5_create h k v w =
     (Inr (), w\<lparr>files := (files w)(hpath h \<mapsto> (contents w h)(k \<mapsto> v)),
                 trace := trace w @ [Create (hpath h) k]\<rparr>)"
  by (simp add: h5_create_def)





section \<open>Fields and their initial values\<close>

text \<open>
  C1, as the code has it. A loss field that is absent is created, with its accuracy
  field, filled with \<open>-1\<close>, in memory and in the file. Absent eigenvalue fields are
  created with \<open>max_eig\<close> filled with \<open>-1\<close> and \<open>min_eig\<close> filled with \<open>+1\<close> (the start
  values of a running maximum and a running minimum); a worker of rank other than 0
  creates them in memory only.
\<close>

theorem created_fields_hold_initial_value:
  "(hwritable f \<longrightarrow> loss_key \<noteq> acc_key \<longrightarrow>
      contents w f loss_key = None \<longrightarrow> contents w f acc_key = None \<longrightarrow>
      (\<exists>w'. load_field f shp (loss_key, acc_key) (losses, accuracies) w =
              (Inr (losses(loss_key \<mapsto> full shp (-1)), accuracies(acc_key \<mapsto> full shp (-1))), w') \<and>
            contents w' f loss_key = Some (DArr (full shp (-1))) \<and>
            contents w' f acc_key = Some (DArr (full shp (-1))))) \<and>
   (contents w f ''min_eig'' = None \<longrightarrow> contents w f ''max_eig'' = None \<longrightarrow> hwritable f \<longrightarrow>
      grid_shape xs ys = Inr shp \<longrightarrow>
      (\<exists>w'. load_eigs f 0 xs ys w = (Inr (full shp 1, full shp (-1)), w') \<and>
            contents w' f ''min_eig'' = Some (DArr (full shp 1)) \<and>
            contents w' f ''max_eig'' = Some (DArr (full shp (-1))))) \<and>
   (contents w f ''min_eig'' = None \<longrightarrow> rank \<noteq> 0 \<longrightarrow> grid_shape xs ys = Inr shp \<longrightarrow>
      load_eigs f rank xs ys w = (Inr (full shp 1, full shp (-1)), w)) \<and>
   (\<forall>u \<in> set (data (full shp v)). u = v) \<and> shape (full shp v) = shp"
proof (intro conjI impI)
  assume "hwritable f" "loss_key \<noteq> acc_key" "contents w f loss_key = None"
    "contents w f acc_key = None"
  then show "\<exists>w'. load_field f shp (loss_key, acc_key) (losses, accuracies) w =
              (Inr (losses(loss_key \<mapsto> full shp (-1)), accuracies(acc_key \<mapsto> full shp (-1))), w') \<and>
            contents w' f loss_key = Some (DArr (full shp (-1))) \<and>
            contents w' f acc_key = Some (DArr (full shp (-1)))"
    by (simp add: load_field_def seq_def h5_has_def h5_create_ok ret_def)
next
  assume "contents w f ''min_eig'' = None" "contents w f ''max_eig'' = None" "hwritable f"
    "grid_shape xs ys = Inr shp"
  then show "\<exists>w'. load_eigs f 0 xs ys w = (Inr (full shp 1, full shp (-1)), w') \<and>
            contents w' f ''min_eig'' = Some (DArr (full shp 1)) \<and>
            contents w' f ''max_eig'' = Some (DArr (full shp (-1)))"
    by (simp add: load_eigs_def seq_def h5_has_def h5_create_ok ret_def lift_def)
next
  assume "contents w f ''min_eig'' = None" "rank \<noteq> 0" "grid_shape xs ys = Inr shp"
  then show "load_eigs f rank xs ys w = (Inr (full shp 1, full shp (-1)), w)"
    by (simp add: load_eigs_def seq_def h5_has_def ret_def lift_def)
next
  show "\<forall>u \<in> set (data (full shp v)). u = v" by (auto simp: full_def)
next
  show "shape (full shp v) = shp" by (simp add: full_def)
qed

theorem created_fields_hold_initial_value_witness:
  "fst (load_field (surface_handle ''s.h5'' 0) [2] (''train_loss'', ''train_acc'')
          (Map.empty, Map.empty) store_2cells) =
     Inr ([''train_loss'' \<mapsto> \<lparr>shape = [2], data = [-1, -1]\<rparr>],
          [''train_acc'' \<mapsto> \<lparr>shape = [2], data = [-1, -1]\<rparr>]) \<and>
   fst (load_eigs (surface_handle ''s.h5'' 0) 0 \<lparr>shape = [2], data = [-1, 1]\<rparr> None store_2cells) =
     Inr (\<lparr>shape = [2], data = [1, 1]\<rparr>, \<lparr>shape = [2], data = [-1, -1]\<rparr>) \<and>
   load_eigs (surface_handle ''s.h5'' 1) 1 \<lparr>shape = [2], data = [-1, 1]\<rparr> None store_2cells =
     (Inr (\<lparr>shape = [2], data = [1, 1]\<rparr>, \<lparr>shape = [2], data = [-1, -1]\<rparr>), store_2cells)"
proof -
  let ?f = "surface_handle ''s.h5'' 0"
  let ?g = "surface_handle ''s.h5'' 1"
  let ?xs = "\<lparr>shape = [2], data = [-1, 1 :: real]\<rparr>"
  have c: "contents store_2cells ?f ''train_loss'' = None"
    "contents store_2cells ?f ''train_acc'' = None"
    "contents store_2cells ?f ''min_eig'' = None"
    "contents store_2cells ?f ''max_eig'' = None"
    "contents store_2cells ?g ''min_eig'' = None"
    by (simp_all add: contents_def store_2cells_def surface_handle_def)
  have h: "hwritable ?f" by (simp add: surface_handle_def)
  have k: "''train_loss'' \<noteq> ''train_acc''" by simp
  have g: "grid_shape ?xs None = Inr [2]" by (simp add: grid_shape_def)
  have r: "(1::nat) \<noteq> 0" by simp
  note t = created_fields_hold_initial_value
  from t [of ?f "''train_loss''" "''train_acc''" store_2cells "[2]" Map.empty Map.empty ?xs None 0 0]
    h k c
  have one: "fst (load_field ?f [2] (''train_loss'', ''train_acc'') (Map.empty, Map.empty) store_2cells) =
     Inr ([''train_loss'' \<mapsto> full [2] (-1)], [''train_acc'' \<mapsto> full [2] (-1)])"
    by auto
  from t [of ?f "''train_loss''" "''train_acc''" store_2cells "[2]" Map.empty Map.empty ?xs None 0 0]
    h c g
  have two: "fst (load_eigs ?f 0 ?xs None store_2cells) = Inr (full [2] 1, full [2] (-1))"
    by auto
  from t [of ?g "''train_loss''" "''train_acc''" store_2cells "[2]" Map.empty Map.empty ?xs None 1 0]
    c g r
  have three: "load_eigs ?g 1 ?xs None store_2cells = (Inr (full [2] 1, full [2] (-1)), store_2cells)"
    by blast
  have f: "full [2] v = \<lparr>shape = [2], data = [v, v]\<rparr>" for v
    by (simp add: full_def numeral_2_eq_2)
  from one two three show ?thesis by (simp add: f)
qed

text \<open>
  C1 as stated fails on the eigenvalue fields: on a grid of two cells the field created
  for \<open>max_eig\<close> holds \<open>-1\<close> and the one for \<open>min_eig\<close> holds \<open>+1\<close>, not the other way
  round.
\<close>

theorem eigenvalue_fields_start_at_minus_one_and_one:
  "fst (load_eigs (surface_handle ''s.h5'' 0) 0 \<lparr>shape = [2], data = [-1, 1]\<rparr> None store_2cells) =
     Inr (\<lparr>shape = [2], data = [1, 1]\<rparr>, \<lparr>shape = [2], data = [-1, -1]\<rparr>) \<and>
   contents (snd (load_eigs (surface_handle ''s.h5'' 0) 0 \<lparr>shape = [2], data = [-1, 1]\<rparr> None store_2cells))
     (surface_handle ''s.h5'' 0) ''max_eig'' = Some (DArr \<lparr>shape = [2], data = [-1, -1]\<rparr>) \<and>
   contents (snd (load_eigs (surface_handle ''s.h5'' 0) 0 \<lparr>shape = [2], data = [-1, 1]\<rparr> None store_2cells))
     (surface_handle ''s.h5'' 0) ''min_eig'' = Some (DArr \<lparr>shape = [2], data = [1, 1]\<rparr>)"
  by (simp add: load_eigs_def seq_def h5_has_def h5_create_def contents_def ret_def lift_def
      grid_shape_def store_2cells_def surface_handle_def full_def numeral_2_eq_2)

section \<open>Reasoning about runs\<close>

text \<open>
  \<open>wp m Q E s\<close>: run from \<open>s\<close>, the program \<open>m\<close> ends in a world satisfying \<open>E\<close> if it
  raises, and returns a value and a world satisfying \<open>Q\<close> otherwise.
\<close>

definition wp :: "('a, 's) prog \<Rightarrow> ('a \<Rightarrow> 's \<Rightarrow> bool) \<Rightarrow> ('s \<Rightarrow> bool) \<Rightarrow> 's \<Rightarrow> bool" where
  "wp m Q E s = (case m s of (Inl e, s') \<Rightarrow> E s' | (Inr v, s') \<Rightarrow> Q v s')"

lemma wp_ret: "wp (ret v) Q E s = Q v s"
  by (simp add: wp_def ret_def)

lemma wp_raise: "wp (raise e) Q E s = E s"
  by (simp add: wp_def raise_def)

lemma wp_lift: "wp (lift r) Q E s = (case r of Inl e \<Rightarrow> E s | Inr v \<Rightarrow> Q v s)"
  by (simp add: wp_def lift_def split: sum.splits)

lemma wp_seq: "wp (seq m k) Q E s = wp m (\<lambda>v. wp (k v) Q E) E s"
  by (simp add: wp_def seq_def split: prod.splits sum.splits)

lemma wp_emit: "wp (emit e) Q E s = Q () (s\<lparr>trace := trace s @ [e]\<rparr>)"
  by (simp add: wp_def emit_def)

lemma wp_mono:
  assumes "wp m Q E s" and "\<And>v t. Q v t \<Longrightarrow> Q' v t" and "\<And>t. E t \<Longrightarrow> E' t"
  shows "wp m Q' E' s"
  using assms by (auto simp: wp_def split: prod.splits sum.splits)

lemma wp_foreach_Nil: "wp (foreach body [] acc) Q E s = Q acc s"
  by (simp add: wp_def)

lemma wp_foreach_Cons:
  "wp (foreach body (x # xs) acc) Q E s =
     wp (body x acc) (\<lambda>acc'. wp (foreach body xs acc') Q E) E s"
  by (simp add: wp_def split: prod.splits sum.splits)

lemma wp_success: "wp m Q (\<lambda>_. False) s \<Longrightarrow> \<exists>v s'. m s = (Inr v, s') \<and> Q v s'"
  by (cases "m s"; cases "fst (m s)") (auto simp: wp_def)

lemma wp_foreach_idx:
  assumes "I 0 acc s"
    and "\<And>i a t. i < length xs \<Longrightarrow> I i a t \<Longrightarrow> wp (body (xs ! i) a) (I (Suc i)) E t"
    and "\<And>a t. I (length xs) a t \<Longrightarrow> Q a t"
  shows "wp (foreach body xs acc) Q E s"
  using assms
proof (induction xs arbitrary: I acc s)
  case Nil
  then show ?case by (simp add: wp_def)
next
  case (Cons x xs)
  from Cons.prems(2) [of 0 acc s] Cons.prems(1)
  have step: "wp (body x acc) (I (Suc 0)) E s" by simp
  show ?case
  proof (cases "body x acc s")
    case (Pair r s')
    show ?thesis
    proof (cases r)
      case (Inl e)
      with Pair step show ?thesis by (simp add: wp_def)
    next
      case (Inr acc')
      with Pair step have i1: "I (Suc 0) acc' s'" by (simp add: wp_def)
      have "wp (foreach body xs acc') Q E s'"
      proof (rule Cons.IH [where I = "\<lambda>i. I (Suc i)"])
        show "I (Suc 0) acc' s'" by (rule i1)
      next
        fix i a t
        assume "i < length xs" and "I (Suc i) a t"
        with Cons.prems(2) [of "Suc i" a t]
        show "wp (body (xs ! i) a) (I (Suc (Suc i))) E t" by simp
      next
        fix a t
        assume "I (Suc (length xs)) a t"
        with Cons.prems(3) show "Q a t" by simp
      qed
      with Pair Inr show ?thesis by (simp add: wp_def)
    qed
  qed
qed

lemma wp_foreach:
  assumes "I acc s"
    and "\<And>x a t. x \<in> set xs \<Longrightarrow> I a t \<Longrightarrow> wp (body x a) I E t"
    and "\<And>a t. I a t \<Longrightarrow> Q a t"
  shows "wp (foreach body xs acc) Q E s"
  by (rule wp_foreach_idx [where I = "\<lambda>i. I"]) (use assms in auto)

lemma wpD_Inr: "wp m Q E s \<Longrightarrow> m s = (Inr v, s') \<Longrightarrow> Q v s'"
  by (simp add: wp_def)

lemma wpD_Inl: "wp m Q E s \<Longrightarrow> m s = (Inl e, s') \<Longrightarrow> E s'"
  by (simp add: wp_def)

lemma wp_path_exists: "wp (path_exists p) Q E s = Q (files s p \<noteq> None) s"
  by (simp add: wp_def path_exists_def)

lemma wp_h5_has: "wp (h5_has h k) Q E s = Q (contents s h k \<noteq> None) s"
  by (simp add: wp_def h5_has_def)

lemma wp_h5_read:
  "wp (h5_read h k) Q E s =
     (case contents s h k of None \<Rightarrow> E s | Some (DStr _) \<Rightarrow> E s | Some (DArr a) \<Rightarrow> Q a s)"
  by (simp add: wp_def h5_read_def split: option.splits dataset.splits)

lemma wp_h5_open:
  "wp (h5_open p mode) Q E s =
     (if mode = ''a'' then
        (case files s p of
           None \<Rightarrow> Q \<lparr>hpath = p, hwritable = True\<rparr> (s\<lparr>files := (files s)(p \<mapsto> Map.empty)\<rparr>)
         | Some _ \<Rightarrow> Q \<lparr>hpath = p, hwritable = True\<rparr> s)
      else (case files s p of None \<Rightarrow> E s
            | Some _ \<Rightarrow> Q \<lparr>hpath = p, hwritable = (mode = ''r+'')\<rparr> s))"
  by (simp add: wp_def h5_open_def split: option.splits)

lemma wp_h5_create:
  "wp (h5_create h k v) Q E s =
     (if \<not> hwritable h \<or> contents s h k \<noteq> None then E s
      else Q () (s\<lparr>files := (files s)(hpath h \<mapsto> (contents s h)(k \<mapsto> v)),
                   trace := trace s @ [Create (hpath h) k]\<rparr>))"
  by (simp add: wp_def h5_create_def)

lemma wp_h5_assign:
  "wp (h5_assign h k a) Q E s =
     (case contents s h k of
        None \<Rightarrow> E s
      | Some (DStr _) \<Rightarrow> E s
      | Some (DArr old) \<Rightarrow>
          if \<not> hwritable h \<or> shape old \<noteq> shape a then E s
          else Q () (s\<lparr>files := (files s)(hpath h \<mapsto> (contents s h)(k \<mapsto> DArr a)),
                       trace := trace s @ [Commit (hpath h) k]\<rparr>))"
  by (simp add: wp_def h5_assign_def split: option.splits dataset.splits)

lemma wp_h5_flush: "wp (h5_flush h) Q E s = Q () (s\<lparr>trace := trace s @ [Flush (hpath h)]\<rparr>)"
  by (simp add: h5_flush_def wp_emit)

lemma wp_lookup: "wp (lookup m k) Q E s = (case m k of None \<Rightarrow> E s | Some a \<Rightarrow> Q a s)"
  by (simp add: lookup_def wp_raise wp_ret split: option.splits)

lemma wp_first_key: "wp (first_key ks) Q E s = (case ks of [] \<Rightarrow> E s | k # _ \<Rightarrow> Q k s)"
  by (simp add: first_key_def wp_raise wp_ret split: list.splits)

lemma wp_item: "wp (item xs i) Q E s = (if i < length xs then Q (xs ! i) s else E s)"
  by (simp add: item_def wp_raise wp_ret)

lemma wp_ravel_set:
  "wp (ravel_set a ind v) Q E s =
     (if ind < asize a then Q (a\<lparr>data := (data a)[ind := v]\<rparr>) s else E s)"
  by (simp add: ravel_set_def wp_raise wp_ret)

lemma wp_py_max: "wp (py_max ns) Q E s = (case ns of [] \<Rightarrow> E s | n # ns' \<Rightarrow> Q (fold max ns' n) s)"
  by (simp add: py_max_def wp_raise wp_ret split: list.splits)

lemma wp_reduce_max:
  "wp (reduce_max c a) Q E s =
     Q (exchange c (collectives (trace s)) a) (s\<lparr>trace := trace s @ [ReduceMax]\<rparr>)"
  by (simp add: wp_def reduce_max_def)

lemma wp_reduce_min:
  "wp (reduce_min c a) Q E s =
     Q (exchange c (collectives (trace s)) a) (s\<lparr>trace := trace s @ [ReduceMin]\<rparr>)"
  by (simp add: wp_def reduce_min_def)

lemma wp_evaluate:
  "wp (evaluate ev net dl) Q E s = Q (ev net dl) (s\<lparr>trace := trace s @ [Eval net dl]\<rparr>)"
  by (simp add: evaluate_def wp_seq wp_emit wp_ret)

lemma wp_solve:
  "wp (solve ext net dl) Q E s =
     Q (min_max_hessian_eigs ext net dl) (s\<lparr>trace := trace s @ [Eigs net dl]\<rparr>)"
  by (simp add: solve_def wp_seq wp_emit wp_ret)

lemma wp_load_weights:
  "wp (load_weights ext a net w s d coord) Q E t =
     (if dir_type a = ''weights''
      then Q (set_weights ext net w d coord) (t\<lparr>trace := trace t @ [SetWeights coord]\<rparr>)
      else if dir_type a = ''states''
      then Q (set_states ext net s d coord) (t\<lparr>trace := trace t @ [SetStates coord]\<rparr>)
      else Q net t)"
  by (simp add: load_weights_def wp_seq wp_emit wp_ret)

lemmas wp_rules = wp_ret wp_raise wp_lift wp_seq wp_emit wp_path_exists wp_h5_has wp_h5_read
  wp_h5_open wp_h5_create wp_h5_assign wp_h5_flush wp_lookup wp_first_key wp_item wp_ravel_set
  wp_py_max wp_reduce_max wp_reduce_min wp_evaluate wp_solve wp_load_weights


lemma wp_open_surface_eq:
  "wp (open_surface p rank) Q E s =
     (case files s p of
        None \<Rightarrow> E s
      | Some g \<Rightarrow>
          (case g ''xcoordinates'' of
             Some (DArr xs) \<Rightarrow>
               (case g ''ycoordinates'' of
                  None \<Rightarrow> Q (\<lparr>hpath = p, hwritable = (rank = 0)\<rparr>, xs, None) s
                | Some (DArr ys) \<Rightarrow> Q (\<lparr>hpath = p, hwritable = (rank = 0)\<rparr>, xs, Some ys) s
                | Some (DStr _) \<Rightarrow> E s)
           | _ \<Rightarrow> E s))"
  by (auto simp: open_surface_def wp_rules contents_def split: option.splits dataset.splits)


subsection \<open>Traces that grow by events of one kind\<close>

definition since :: "'e list \<Rightarrow> ('e \<Rightarrow> bool) \<Rightarrow> 'e list \<Rightarrow> bool" where
  "since tr0 P tr = (\<exists>es. tr = tr0 @ es \<and> list_all P es)"

lemma since_refl [simp]: "since tr P tr"
  by (simp add: since_def)

lemma since_append [simp]: "since tr0 P tr \<Longrightarrow> since tr0 P (tr @ es) = list_all P es"
  by (auto simp: since_def)

lemma since_trans: "since tr0 P tr1 \<Longrightarrow> since tr1 P tr2 \<Longrightarrow> since tr0 P tr2"
  by (auto simp: since_def)

lemma since_filter: "since tr0 P tr \<Longrightarrow> (\<And>e. P e \<Longrightarrow> \<not> K e) \<Longrightarrow> filter K tr = filter K tr0"
  by (auto simp: since_def list_all_iff filter_empty_conv)

text \<open>
  \<open>keeps P R m\<close>: whatever the outcome, \<open>m\<close> appends only events that satisfy \<open>P\<close>, and
  a value it returns satisfies \<open>R\<close>.
\<close>

definition keeps :: "(('net, 'dl) event \<Rightarrow> bool) \<Rightarrow> ('a \<Rightarrow> bool) \<Rightarrow> ('a, ('net, 'dl) world) prog \<Rightarrow> bool" where
  "keeps P R m =
     (\<forall>tr0 s. since tr0 P (trace s) \<longrightarrow>
        wp m (\<lambda>v t. R v \<and> since tr0 P (trace t)) (\<lambda>t. since tr0 P (trace t)) s)"

lemma keepsI:
  "(\<And>tr0 s. since tr0 P (trace s) \<Longrightarrow>
      wp m (\<lambda>v t. R v \<and> since tr0 P (trace t)) (\<lambda>t. since tr0 P (trace t)) s) \<Longrightarrow> keeps P R m"
  by (simp add: keeps_def)

lemma keepsD:
  "keeps P R m \<Longrightarrow> since tr0 P (trace s) \<Longrightarrow>
   wp m (\<lambda>v t. R v \<and> since tr0 P (trace t)) (\<lambda>t. since tr0 P (trace t)) s"
  by (simp add: keeps_def)


lemma keeps_seq:
  fixes m :: "('a, ('net, 'dl) world) prog"
  assumes "keeps P R1 m" and "\<And>v. R1 v \<Longrightarrow> keeps P R (k v)"
  shows "keeps P R (seq m k)"
proof (rule keepsI)
  fix tr0 and s :: "('net, 'dl) world"
  assume s: "since tr0 P (trace s)"
  show "wp (seq m k) (\<lambda>v t. R v \<and> since tr0 P (trace t)) (\<lambda>t. since tr0 P (trace t)) s"
    unfolding wp_seq
    by (rule wp_mono [OF keepsD [OF assms(1) s]]) (auto dest: assms(2) intro: keepsD)
qed

lemma keeps_foreach:
  fixes body :: "'x \<Rightarrow> 'b \<Rightarrow> ('b, ('net, 'dl) world) prog"
  assumes "R acc" and "\<And>x a. x \<in> set xs \<Longrightarrow> R a \<Longrightarrow> keeps P R (body x a)"
  shows "keeps P R (foreach body xs acc)"
proof (rule keepsI)
  fix tr0 and s :: "('net, 'dl) world"
  assume s: "since tr0 P (trace s)"
  show "wp (foreach body xs acc) (\<lambda>v t. R v \<and> since tr0 P (trace t)) (\<lambda>t. since tr0 P (trace t)) s"
    by (rule wp_foreach [where I = "\<lambda>a t. R a \<and> since tr0 P (trace t)"])
       (use assms s in \<open>auto intro: keepsD\<close>)
qed


lemma keeps_ret: "R v \<Longrightarrow> keeps P R (ret v)"
  by (simp add: keeps_def wp_ret)

lemma keeps_raise: "keeps P R (raise e)"
  by (simp add: keeps_def wp_raise)

lemma keeps_lift: "(\<And>v. r = Inr v \<Longrightarrow> R v) \<Longrightarrow> keeps P R (lift r)"
  by (simp add: keeps_def wp_lift split: sum.splits)

lemma keeps_emit: "P e \<Longrightarrow> keeps P (\<lambda>_. True) (emit e)"
  by (simp add: keeps_def wp_emit)

lemma keeps_h5_has: "keeps P (\<lambda>_. True) (h5_has h k)"
  by (simp add: keeps_def wp_h5_has)

lemma keeps_h5_read: "keeps P (\<lambda>_. True) (h5_read h k)"
  by (simp add: keeps_def wp_h5_read split: option.splits dataset.splits)

lemma keeps_h5_create: "P (Create (hpath h) k) \<Longrightarrow> keeps P (\<lambda>_. True) (h5_create h k v)"
  by (simp add: keeps_def wp_h5_create)

lemma keeps_h5_assign: "P (Commit (hpath h) k) \<Longrightarrow> keeps P (\<lambda>_. True) (h5_assign h k a)"
  by (simp add: keeps_def wp_h5_assign split: option.splits dataset.splits)

lemma keeps_h5_flush: "P (Flush (hpath h)) \<Longrightarrow> keeps P (\<lambda>_. True) (h5_flush h)"
  by (simp add: keeps_def wp_h5_flush)

lemma keeps_lookup: "keeps P (\<lambda>_. True) (lookup m k)"
  by (simp add: keeps_def wp_lookup split: option.splits)

lemma keeps_first_key: "keeps P (\<lambda>_. True) (first_key ks)"
  by (simp add: keeps_def wp_first_key split: list.splits)

lemma keeps_item: "keeps P (\<lambda>_. True) (item xs i)"
  by (simp add: keeps_def wp_item)

lemma keeps_ravel_set: "keeps P (\<lambda>_. True) (ravel_set a i v)"
  by (simp add: keeps_def wp_ravel_set)

lemma keeps_py_max: "keeps P (\<lambda>_. True) (py_max ns)"
  by (simp add: keeps_def wp_py_max split: list.splits)

lemma keeps_reduce_max: "P ReduceMax \<Longrightarrow> keeps P (\<lambda>_. True) (reduce_max c a)"
  by (simp add: keeps_def wp_reduce_max)

lemma keeps_reduce_min: "P ReduceMin \<Longrightarrow> keeps P (\<lambda>_. True) (reduce_min c a)"
  by (simp add: keeps_def wp_reduce_min)

lemma keeps_evaluate: "P (Eval net dl) \<Longrightarrow> keeps P (\<lambda>_. True) (evaluate ev net dl)"
  by (simp add: keeps_def wp_evaluate)

lemma keeps_solve: "P (Eigs net dl) \<Longrightarrow> keeps P (\<lambda>_. True) (solve ext net dl)"
  by (simp add: keeps_def wp_solve)


lemma keeps_run:
  assumes "keeps P R m"
  shows "since (trace s) P (trace (snd (m s))) \<and> (\<forall>v. fst (m s) = Inr v \<longrightarrow> R v)"
  using keepsD [OF assms since_refl, of s]
  by (cases "m s"; cases "fst (m s)") (auto simp: wp_def)

lemma evaluations_simps [simp]:
  "evaluations [] = 0"
  "evaluations (tr @ tr') = evaluations tr + evaluations tr'"
  "evaluations (e # tr) = (if is_call e then 1 else 0) + evaluations tr"
  by (simp_all add: evaluations_def)


subsection \<open>Steps that append events of one kind\<close>

lemma keeps_seq_any:
  fixes m :: "('a, ('net, 'dl) world) prog"
  assumes "keeps P (\<lambda>_. True) m" and "\<And>v. keeps P R (k v)"
  shows "keeps P R (seq m k)"
  using assms by (auto intro: keeps_seq)


lemma keeps_foreach_any:
  fixes body :: "'x \<Rightarrow> 'b \<Rightarrow> ('b, ('net, 'dl) world) prog"
  assumes "\<And>x a. keeps P (\<lambda>_. True) (body x a)"
  shows "keeps P (\<lambda>_. True) (foreach body xs acc)"
  using assms by (auto intro: keeps_foreach)

lemmas keeps_prims = keeps_raise keeps_emit keeps_h5_has keeps_h5_read keeps_h5_create
  keeps_h5_assign keeps_h5_flush keeps_lookup keeps_first_key keeps_item keeps_ravel_set
  keeps_py_max keeps_reduce_max keeps_reduce_min keeps_evaluate keeps_solve


lemma keeps_load_weights:
  assumes "P (SetWeights coord)" "P (SetStates coord)"
  shows "keeps P (\<lambda>_. True) (load_weights ext a net w s d coord)"
  unfolding load_weights_def
  by (auto intro!: keeps_seq_any keeps_prims keeps_ret assms)

lemma keeps_load_field:
  assumes "\<And>k. P (Create (hpath f) k)"
  shows "keeps P (\<lambda>_. True) (load_field f shp keys la)"
  unfolding load_field_def
  by (auto split: prod.splits intro!: keeps_seq_any keeps_prims keeps_ret assms)

lemma keeps_load_eigs:
  assumes "\<And>k. P (Create (hpath f) k)"
  shows "keeps P (\<lambda>_. True) (load_eigs f rank xs ys)"
  unfolding load_eigs_def
  by (auto split: prod.splits intro!: keeps_seq_any keeps_prims keeps_ret keeps_lift assms)

lemma keeps_commit_fields:
  assumes "\<And>k. P (Commit (hpath f) k)" "P (Flush (hpath f))"
  shows "keeps P (\<lambda>_. True) (commit_fields f lks aks la)"
  unfolding commit_fields_def commit_pair_def
  by (auto split: prod.splits intro!: keeps_seq_any keeps_foreach_any keeps_prims keeps_ret assms)


lemma keeps_crunch_2_eval:
  assumes "\<And>dl. P (Eval net dl)"
  shows "keeps P (\<lambda>_. True) (crunch_2_eval ev net ind dk la)"
  unfolding crunch_2_eval_def
  by (auto split: prod.splits intro!: keeps_seq_any keeps_prims keeps_ret assms)



text \<open>The cell loops of the variants without reduction write nothing to the file.\<close>

lemma keeps_crunch_2_cell:
  assumes "\<And>n dl. P (Eval n dl)" "\<And>co. P (SetWeights co)" "\<And>co. P (SetStates co)"
  shows "keeps P (\<lambda>_. True) (crunch_2_cell ext a ev w s d dls lks aks coords ind st)"
  unfolding crunch_2_cell_def
  by (auto split: prod.splits
      intro!: keeps_seq_any keeps_foreach_any keeps_prims keeps_ret keeps_load_weights
        keeps_crunch_2_eval assms)

lemma keeps_hessian_2_cell:
  assumes "\<And>n dl. P (Eigs n dl)" "\<And>co. P (SetWeights co)" "\<And>co. P (SetStates co)"
  shows "keeps P (\<lambda>_. True) (hessian_2_cell ext a w s d dl coords ind st)"
  unfolding hessian_2_cell_def
  by (auto split: prod.splits
      intro!: keeps_seq_any keeps_prims keeps_ret keeps_load_weights assms)

subsection \<open>Runs that return\<close>

lemma seq_InrE:
  assumes "seq m k s = (Inr r, s2)"
  obtains v s1 where "m s = (Inr v, s1)" "k v s1 = (Inr r, s2)"
  using assms by (auto simp: seq_def split: prod.splits sum.splits)

lemma open_surface_Inr:
  "open_surface p rank t = (Inr v, t1) \<Longrightarrow>
   t1 = t \<and> fst v = \<lparr>hpath = p, hwritable = (rank = 0)\<rparr>"
  using wp_open_surface_eq [of p rank
      "\<lambda>v t1. t1 = t \<and> fst v = \<lparr>hpath = p, hwritable = (rank = 0)\<rparr>" "\<lambda>_. True" t]
  by (auto simp: wp_def split: option.splits dataset.splits)

lemma crunch_2_InrE:
  assumes "crunch_2 ext p net w s d dls lks aks c rank a ev t = (Inr net', t')"
  obtains xs ys shp la vals la' t1 t2 where
    "length dls = length lks" "length lks = length aks"
    "foreach (load_field \<lparr>hpath = p, hwritable = (rank = 0)\<rparr> shp) (zip lks aks)
       (Map.empty, Map.empty) t = (Inr la, t1)"
    "lks \<noteq> []" "fst la (hd lks) = Some vals"
    "foreach (crunch_2_cell ext a ev w s d dls lks aks (grid_coords xs ys)) [0..<asize vals]
       (net, la) t1 = (Inr (net', la'), t2)"
    "commit_fields \<lparr>hpath = p, hwritable = (rank = 0)\<rparr> lks aks la' t2 = (Inr (), t')"
proof -
  from assms have len: "length dls = length lks" "length lks = length aks"
    by (auto simp: crunch_2_def raise_def split: if_splits)
  with assms have run: "seq (open_surface p rank) (\<lambda>(f, xcoordinates, ycoordinates).
        seq (lift (grid_shape xcoordinates ycoordinates)) (\<lambda>shp.
        seq (foreach (load_field f shp) (zip lks aks) (Map.empty, Map.empty)) (\<lambda>la.
        seq (first_key lks) (\<lambda>k0.
        seq (lookup (fst la) k0) (\<lambda>vals.
        seq (foreach (crunch_2_cell ext a ev w s d dls lks aks
                        (grid_coords xcoordinates ycoordinates))
               [0..<asize vals] (net, la)) (\<lambda>(net', la').
        seq (commit_fields f lks aks la') (\<lambda>_.
        ret net'))))))) t = (Inr net', t')"
    by (simp add: crunch_2_def)
  then obtain v t0 where o: "open_surface p rank t = (Inr v, t0)"
    and r1: "(case v of (f, xcoordinates, ycoordinates) \<Rightarrow>
        seq (lift (grid_shape xcoordinates ycoordinates)) (\<lambda>shp.
        seq (foreach (load_field f shp) (zip lks aks) (Map.empty, Map.empty)) (\<lambda>la.
        seq (first_key lks) (\<lambda>k0.
        seq (lookup (fst la) k0) (\<lambda>vals.
        seq (foreach (crunch_2_cell ext a ev w s d dls lks aks
                        (grid_coords xcoordinates ycoordinates))
               [0..<asize vals] (net, la)) (\<lambda>(net', la').
        seq (commit_fields f lks aks la') (\<lambda>_.
        ret net'))))))) t0 = (Inr net', t')"
    by (rule seq_InrE)
  obtain f xs ys where v: "v = (f, xs, ys)" by (cases v) auto
  from open_surface_Inr [OF o] v have t0: "t0 = t" and f: "f = \<lparr>hpath = p, hwritable = (rank = 0)\<rparr>"
    by auto
  from r1 v t0 f have "\<exists>shp la vals la' t1 t2.
    foreach (load_field \<lparr>hpath = p, hwritable = (rank = 0)\<rparr> shp) (zip lks aks)
      (Map.empty, Map.empty) t = (Inr la, t1) \<and>
    lks \<noteq> [] \<and> fst la (hd lks) = Some vals \<and>
    foreach (crunch_2_cell ext a ev w s d dls lks aks (grid_coords xs ys)) [0..<asize vals]
      (net, la) t1 = (Inr (net', la'), t2) \<and>
    commit_fields \<lparr>hpath = p, hwritable = (rank = 0)\<rparr> lks aks la' t2 = (Inr (), t')"
    apply simp
    apply (elim seq_InrE)
    apply (clarsimp simp: lift_def first_key_def lookup_def ret_def raise_def
        split: list.splits option.splits)
    apply (elim seq_InrE)
    apply (clarsimp simp: ret_def)
    apply blast
    done
  with len that show ?thesis by blast
qed

lemma crunch_hessian_eigs_2_InrE:
  assumes "crunch_hessian_eigs_2 ext p net w s d dl c rank a t = (Inr net', t')"
  obtains xs ys min_eig max_eig mn mx t1 t2 t3 where
    "load_eigs \<lparr>hpath = p, hwritable = (rank = 0)\<rparr> rank xs ys t = (Inr (min_eig, max_eig), t1)"
    "foreach (hessian_2_cell ext a w s d dl (grid_coords xs ys)) [0..<asize max_eig]
       (net, min_eig, max_eig) t1 = (Inr (net', mn, mx), t2)"
    "h5_assign \<lparr>hpath = p, hwritable = (rank = 0)\<rparr> ''max_eig'' mx t2 = (Inr (), t3)"
    "h5_assign \<lparr>hpath = p, hwritable = (rank = 0)\<rparr> ''min_eig'' mn t3 = (Inr (), t')"
proof -
  from assms obtain v t0 where o: "open_surface p rank t = (Inr v, t0)"
    and r1: "(case v of (f, xcoordinates, ycoordinates) \<Rightarrow>
     seq (load_eigs f rank xcoordinates ycoordinates) (\<lambda>(min_eig, max_eig).
     seq (foreach (hessian_2_cell ext a w s d dl (grid_coords xcoordinates ycoordinates))
            [0..<asize max_eig] (net, min_eig, max_eig)) (\<lambda>(net', mn, mx).
     seq (h5_assign f ''max_eig'' mx) (\<lambda>_.
     seq (h5_assign f ''min_eig'' mn) (\<lambda>_.
     ret net'))))) t0 = (Inr net', t')"
    unfolding crunch_hessian_eigs_2_def by (rule seq_InrE)
  obtain f xs ys where v: "v = (f, xs, ys)" by (cases v) auto
  from open_surface_Inr [OF o] v have t0: "t0 = t" and f: "f = \<lparr>hpath = p, hwritable = (rank = 0)\<rparr>"
    by auto
  from r1 v t0 f have "\<exists>min_eig max_eig mn mx t1 t2 t3.
    load_eigs \<lparr>hpath = p, hwritable = (rank = 0)\<rparr> rank xs ys t = (Inr (min_eig, max_eig), t1) \<and>
    foreach (hessian_2_cell ext a w s d dl (grid_coords xs ys)) [0..<asize max_eig]
       (net, min_eig, max_eig) t1 = (Inr (net', mn, mx), t2) \<and>
    h5_assign \<lparr>hpath = p, hwritable = (rank = 0)\<rparr> ''max_eig'' mx t2 = (Inr (), t3) \<and>
    h5_assign \<lparr>hpath = p, hwritable = (rank = 0)\<rparr> ''min_eig'' mn t3 = (Inr (), t')"
    by (auto simp: ret_def elim!: seq_InrE)
  with that show ?thesis by blast
qed

text \<open>What a successful commit appends.\<close>

lemma h5_assign_Inr:
  "h5_assign f k arr t = (Inr u, t') \<Longrightarrow> trace t' = trace t @ [Commit (hpath f) k]"
  by (auto simp: h5_assign_def split: option.splits dataset.splits if_splits)

lemma commit_pair_Inr:
  "commit_pair f la (lk, ak) u t = (Inr u', t') \<Longrightarrow>
   trace t' = trace t @ [Commit (hpath f) lk, Commit (hpath f) ak]"
  by (cases la)
     (auto simp: commit_pair_def lookup_def ret_def raise_def elim!: seq_InrE
       dest!: h5_assign_Inr split: option.splits)

lemma commit_loop_Inr:
  "foreach (commit_pair f la) ks u t = (Inr u', t') \<Longrightarrow>
   trace t' = trace t @ concat (map (\<lambda>(lk, ak). [Commit (hpath f) lk, Commit (hpath f) ak]) ks)"
proof (induction ks arbitrary: u t)
  case Nil
  then show ?case by simp
next
  case (Cons k ks)
  obtain lk ak where k: "k = (lk, ak)" by (cases k) auto
  from Cons.prems obtain u1 t1 where one: "commit_pair f la k u t = (Inr u1, t1)"
    and rest: "foreach (commit_pair f la) ks u1 t1 = (Inr u', t')"
    by (auto split: prod.splits sum.splits)
  from commit_pair_Inr [OF one [unfolded k]] Cons.IH [OF rest] k show ?case by simp
qed

lemma commit_fields_Inr:
  assumes "commit_fields f lks aks la t = (Inr u, t')"
  shows "trace t' = trace t @
     concat (map (\<lambda>(lk, ak). [Commit (hpath f) lk, Commit (hpath f) ak]) (zip lks aks)) @
     [Flush (hpath f)]"
  using assms
  by (auto simp: commit_fields_def h5_flush_def emit_def elim!: seq_InrE dest!: commit_loop_Inr)

subsection \<open>Loops that return\<close>

lemma foreach_count:
  fixes f :: "'s \<Rightarrow> nat"
  assumes step: "\<And>x a t a' t'. body x a t = (Inr a', t') \<Longrightarrow> f t' = f t + k"
    and run: "foreach body xs acc t = (Inr acc', t')"
  shows "f t' = f t + length xs * k"
  using run
proof (induction xs arbitrary: acc t)
  case Nil
  then show ?case by simp
next
  case (Cons x xs)
  from Cons.prems obtain a1 t1 where one: "body x acc t = (Inr a1, t1)"
    and rest: "foreach body xs a1 t1 = (Inr acc', t')"
    by (auto split: prod.splits sum.splits)
  from step [OF one] Cons.IH [OF rest] show ?case by simp
qed

lemma keeps_Inr:
  assumes "keeps P R m" and "m t = (Inr v, t')"
  shows "since (trace t) P (trace t')"
  using keeps_run [OF assms(1), of t] assms(2) by simp

lemma keeps_Inl:
  assumes "keeps P R m" and "m t = (Inl e, t')"
  shows "since (trace t) P (trace t')"
  using keeps_run [OF assms(1), of t] assms(2) by simp





subsection \<open>What the field loop reads\<close>

lemma wp_load_field_keeps:
  assumes pre: "contents s f k0 = Some (DArr vals)" "i = 0 \<or> fst la k0 = Some vals"
    and key: "i = 0 \<longrightarrow> fst keys = k0"
  shows "wp (load_field f shp keys la)
           (\<lambda>la' t. contents t f k0 = Some (DArr vals) \<and> fst la' k0 = Some vals)
           (\<lambda>t. True) s"
  using pre key
  by (cases keys; cases la)
     (auto simp: load_field_def wp_rules split: option.splits dataset.splits)

lemma load_loop_reads:
  fixes la0 :: "fields \<times> fields"
  assumes run: "foreach (load_field f shp) ks la0 t = (Inr la, t1)"
    and field: "contents t f k0 = Some (DArr vals)"
    and key: "ks \<noteq> []" "fst (hd ks) = k0"
  shows "fst la k0 = Some vals"
proof -
  have "wp (foreach (load_field f shp) ks la0)
          (\<lambda>la t. length ks = 0 \<or> fst la k0 = Some vals) (\<lambda>t. True) t"
  proof (rule wp_foreach_idx [where I = "\<lambda>i (la :: fields \<times> fields) t.
      contents t f k0 = Some (DArr vals) \<and> (i = 0 \<or> fst la k0 = Some vals)"])
    show "contents t f k0 = Some (DArr vals) \<and> (0 = 0 \<or> fst la0 k0 = Some vals)"
      using field by simp
  next
    fix i and la :: "fields \<times> fields" and t
    assume i: "i < length ks"
      and inv: "contents t f k0 = Some (DArr vals) \<and> (i = 0 \<or> fst la k0 = Some vals)"
    from i key have k: "i = 0 \<longrightarrow> fst (ks ! i) = k0"
      by (cases ks) auto
    have "wp (load_field f shp (ks ! i) la)
           (\<lambda>la' t. contents t f k0 = Some (DArr vals) \<and> fst la' k0 = Some vals)
           (\<lambda>t. True) t"
      by (rule wp_load_field_keeps [where i = i]) (use inv k in auto)
    then show "wp (load_field f shp (ks ! i) la)
           (\<lambda>la' t. contents t f k0 = Some (DArr vals) \<and>
              (Suc i = 0 \<or> fst la' k0 = Some vals)) (\<lambda>t. True) t"
      by (rule wp_mono) auto
  next
    fix la :: "fields \<times> fields" and t
    assume "contents t f k0 = Some (DArr vals) \<and> (length ks = 0 \<or> fst la k0 = Some vals)"
    then show "length ks = 0 \<or> fst la k0 = Some vals" by simp
  qed
  from wpD_Inr [OF this run] key show ?thesis by simp
qed


subsection \<open>The variants without reduction evaluate every cell\<close>












lemma store_done_simps:
  "files store_done ''s.h5'' = Some (contents store_done \<lparr>hpath = ''s.h5'', hwritable = True\<rparr>)"
  "trace store_done = []"
  "contents store_done \<lparr>hpath = ''s.h5'', hwritable = b\<rparr> =
     [''dir_file'' \<mapsto> DStr ''d.h5'',
      ''xcoordinates'' \<mapsto> DArr \<lparr>shape = [2], data = [-1, 1]\<rparr>,
      ''train_loss'' \<mapsto> DArr \<lparr>shape = [2], data = [1, 1]\<rparr>,
      ''train_acc'' \<mapsto> DArr \<lparr>shape = [2], data = [1 / 2, 1 / 2]\<rparr>,
      ''min_eig'' \<mapsto> DArr \<lparr>shape = [2], data = [2, 2]\<rparr>,
      ''max_eig'' \<mapsto> DArr \<lparr>shape = [2], data = [3, 3]\<rparr>]"
  by (simp_all add: store_done_def contents_def)

lemma store_2cells_simps:
  "files store_2cells ''s.h5'' = Some (contents store_2cells \<lparr>hpath = ''s.h5'', hwritable = True\<rparr>)"
  "trace store_2cells = []"
  "contents store_2cells \<lparr>hpath = ''s.h5'', hwritable = b\<rparr> =
     [''dir_file'' \<mapsto> DStr ''d.h5'',
      ''xcoordinates'' \<mapsto> DArr \<lparr>shape = [2], data = [-1, 1]\<rparr>]"
  by (simp_all add: store_2cells_def contents_def)

lemma wp_result: "wp m Q (\<lambda>_. False) s \<Longrightarrow> \<not> isl (fst (m s)) \<and> Q (projr (fst (m s))) (snd (m s))"
  by (cases "m s"; cases "fst (m s)") (auto simp: wp_def)

lemmas engine_defs = crunch_def crunch_2_def crunch_hessian_eigs_def crunch_hessian_eigs_2_def
  grid_shape_def grid_coords_def load_field_def load_eigs_def crunch_cell_def crunch_eval_def
  crunch_2_cell_def crunch_2_eval_def commit_fields_def commit_pair_def crunch_idle_def
  hessian_cell_def hessian_2_cell_def hessian_idle_def asize_def full_def

lemmas wp_eval = wp_open_surface_eq wp_rules wp_foreach_Cons wp_foreach_Nil split_beta
  upt_conv_Cons

lemma example_args_simps [simp]:
  "dir_type (example_args xs ys dt) = dt"
  by (simp add: example_args_def)

lemma example_ext_simps [simp]:
  "set_weights example_ext net w d coord = w + d * sum_list coord"
  "set_states example_ext net s d coord = s + d * sum_list coord"
  "min_max_hessian_eigs example_ext net dl = (net * net + 2, net * net + 1)"
  by (simp_all add: example_ext_def)

lemma exchange_identity [simp]: "exchange (identity_comm r n) i arr = arr"
  by (simp add: identity_comm_def)


lemma crunch_2_on_fresh:
  "wp (crunch_2 example_ext ''s.h5'' 0 0 0 1 [0] [''train_loss''] [''train_acc'']
         (identity_comm 0 1) 0 (example_args ''-1:1:2'' [] ''weights'') example_evaluator)
     (\<lambda>_ t. trace t = [Create ''s.h5'' ''train_loss'', Create ''s.h5'' ''train_acc'',
         SetWeights [-1], Eval (-1) 0, SetWeights [1], Eval 1 0,
         Commit ''s.h5'' ''train_loss'', Commit ''s.h5'' ''train_acc'', Flush ''s.h5''])
     (\<lambda>_. False) store_2cells"
  by (simp add: engine_defs wp_eval store_2cells_simps example_evaluator_def numeral_2_eq_2)

lemma hessian_2_on_done:
  "wp (crunch_hessian_eigs_2 example_ext ''s.h5'' 0 0 0 1 0
         (identity_comm 0 1) 0 (example_args ''-1:1:2'' [] ''weights''))
     (\<lambda>_ t. trace t = [SetWeights [-1], Eigs (-1) 0, SetWeights [1], Eigs 1 0,
         Commit ''s.h5'' ''max_eig'', Commit ''s.h5'' ''min_eig''])
     (\<lambda>_. False) store_done"
  by (simp add: engine_defs wp_eval store_done_simps)

section \<open>Running again on a complete store\<close>

lemma returned: "\<not> isl (fst r) \<Longrightarrow> r = (Inr (projr (fst r)), snd r)"
  by (cases r; cases "fst r") auto

lemma sinceD: "since tr0 P tr \<Longrightarrow> \<exists>es. tr = tr0 @ es \<and> list_all P es"
  by (simp add: since_def)




section \<open>Commits of the variants without reduction\<close>

lemma crunch_2_commits:
  assumes run: "crunch_2 ext p net w s d dls lks aks c rank a ev t = (Inr net', t')"
  shows "\<exists>es. trace t' = trace t @ es @
           concat (map (\<lambda>(lk, ak). [Commit p lk, Commit p ak]) (zip lks aks)) @ [Flush p] \<and>
         list_all (\<lambda>e. \<not> is_commit e) es"
proof -
  let ?f = "\<lparr>hpath = p, hwritable = (rank = 0)\<rparr>"
  from run obtain xs ys shp la vals la' t1 t2 where
    load: "foreach (load_field ?f shp) (zip lks aks) (Map.empty, Map.empty) t = (Inr la, t1)"
    and cells: "foreach (crunch_2_cell ext a ev w s d dls lks aks (grid_coords xs ys))
       [0..<asize vals] (net, la) t1 = (Inr (net', la'), t2)"
    and commit: "commit_fields ?f lks aks la' t2 = (Inr (), t')"
    by (rule crunch_2_InrE)
  have "since (trace t) (\<lambda>e. \<not> is_commit e) (trace t1)"
    by (rule keeps_Inr [OF keeps_foreach_any load]) (simp add: keeps_load_field)
  moreover have "since (trace t1) (\<lambda>e. \<not> is_commit e) (trace t2)"
    by (rule keeps_Inr [OF keeps_foreach_any cells]) (simp add: keeps_crunch_2_cell)
  ultimately have "since (trace t) (\<lambda>e. \<not> is_commit e) (trace t2)"
    by (rule since_trans)
  then obtain es where "trace t2 = trace t @ es" "list_all (\<lambda>e. \<not> is_commit e) es"
    by (auto dest: sinceD)
  with commit_fields_Inr [OF commit] show ?thesis by simp
qed

lemma crunch_hessian_eigs_2_commits:
  assumes run: "crunch_hessian_eigs_2 ext p net w s d dl c rank a t = (Inr net', t')"
  shows "\<exists>es. trace t' = trace t @ es @ [Commit p ''max_eig'', Commit p ''min_eig''] \<and>
         list_all (\<lambda>e. \<not> is_commit e) es"
proof -
  let ?f = "\<lparr>hpath = p, hwritable = (rank = 0)\<rparr>"
  from run obtain xs ys min_eig max_eig mn mx t1 t2 t3 where
    load: "load_eigs ?f rank xs ys t = (Inr (min_eig, max_eig), t1)"
    and cells: "foreach (hessian_2_cell ext a w s d dl (grid_coords xs ys)) [0..<asize max_eig]
       (net, min_eig, max_eig) t1 = (Inr (net', mn, mx), t2)"
    and c1: "h5_assign ?f ''max_eig'' mx t2 = (Inr (), t3)"
    and c2: "h5_assign ?f ''min_eig'' mn t3 = (Inr (), t')"
    by (rule crunch_hessian_eigs_2_InrE)
  have "since (trace t) (\<lambda>e. \<not> is_commit e) (trace t1)"
    by (rule keeps_Inr [OF keeps_load_eigs load]) simp
  moreover have "since (trace t1) (\<lambda>e. \<not> is_commit e) (trace t2)"
    by (rule keeps_Inr [OF keeps_foreach_any cells]) (simp add: keeps_hessian_2_cell)
  ultimately have "since (trace t) (\<lambda>e. \<not> is_commit e) (trace t2)"
    by (rule since_trans)
  then obtain es where "trace t2 = trace t @ es" "list_all (\<lambda>e. \<not> is_commit e) es"
    by (auto dest: sinceD)
  with h5_assign_Inr [OF c1] h5_assign_Inr [OF c2] show ?thesis by simp
qed

text \<open>
  C6, as the code has it. A run of a variant without reduction that returns has written
  nothing back inside the cell loop: every field is committed once, after the loop.
  \<open>crunch_2\<close> commits each loss and accuracy field and then flushes;
  \<open>crunch_hessian_eigs_2\<close> commits \<open>max_eig\<close> and \<open>min_eig\<close> and does not flush.
\<close>

theorem nonsync_commits_once_after_the_loop:
  "(crunch_2 ext p net w s d dls lks aks c rank a ev t = (Inr net', t') \<longrightarrow>
      (\<exists>es. trace t' = trace t @ es @
           concat (map (\<lambda>(lk, ak). [Commit p lk, Commit p ak]) (zip lks aks)) @ [Flush p] \<and>
         list_all (\<lambda>e. \<not> is_commit e) es)) \<and>
   (crunch_hessian_eigs_2 ext p net w s d dl c rank a t = (Inr net', t') \<longrightarrow>
      (\<exists>es. trace t' = trace t @ es @ [Commit p ''max_eig'', Commit p ''min_eig''] \<and>
         list_all (\<lambda>e. \<not> is_commit e) es))"
  by (intro conjI impI crunch_2_commits crunch_hessian_eigs_2_commits)

theorem nonsync_commits_once_after_the_loop_witness:
  "(\<exists>es. trace (snd (crunch_2 example_ext ''s.h5'' 0 0 0 1 [0] [''train_loss''] [''train_acc'']
      (identity_comm 0 1) 0 (example_args ''-1:1:2'' [] ''weights'') example_evaluator store_2cells)) =
      es @ [Commit ''s.h5'' ''train_loss'', Commit ''s.h5'' ''train_acc'', Flush ''s.h5''] \<and>
      list_all (\<lambda>e. \<not> is_commit e) es) \<and>
   (\<exists>es. trace (snd (crunch_hessian_eigs_2 example_ext ''s.h5'' 0 0 0 1 0
      (identity_comm 0 1) 0 (example_args ''-1:1:2'' [] ''weights'') store_done)) =
      es @ [Commit ''s.h5'' ''max_eig'', Commit ''s.h5'' ''min_eig''] \<and>
      list_all (\<lambda>e. \<not> is_commit e) es)"
proof -
  let ?a = "example_args ''-1:1:2'' [] ''weights''"
  let ?c = "identity_comm 0 1"
  let ?r2 = "crunch_2 example_ext ''s.h5'' 0 0 0 1 [0] [''train_loss''] [''train_acc'']
      ?c 0 ?a example_evaluator store_2cells"
  let ?h2 = "crunch_hessian_eigs_2 example_ext ''s.h5'' 0 0 0 1 0 ?c 0 ?a store_done"
  have r2: "?r2 = (Inr (projr (fst ?r2)), snd ?r2)"
    by (rule returned) (use wp_result [OF crunch_2_on_fresh] in simp)
  have h2: "?h2 = (Inr (projr (fst ?h2)), snd ?h2)"
    by (rule returned) (use wp_result [OF hessian_2_on_done] in simp)
  from nonsync_commits_once_after_the_loop [of example_ext "''s.h5''" 0 0 0 1 "[0]"
      "[''train_loss'']" "[''train_acc'']" ?c 0 ?a example_evaluator store_2cells
      "projr (fst ?r2)" "snd ?r2" 0] r2
  have one: "\<exists>es. trace (snd ?r2) = es @
      [Commit ''s.h5'' ''train_loss'', Commit ''s.h5'' ''train_acc'', Flush ''s.h5''] \<and>
      list_all (\<lambda>e. \<not> is_commit e) es"
    by (simp add: store_2cells_simps)
  from nonsync_commits_once_after_the_loop [of example_ext "''s.h5''" 0 0 0 1 "[0]"
      "[''train_loss'']" "[''train_acc'']" ?c 0 ?a example_evaluator store_done
      "projr (fst ?h2)" "snd ?h2" 0] h2
  have two: "\<exists>es. trace (snd ?h2) = es @
      [Commit ''s.h5'' ''max_eig'', Commit ''s.h5'' ''min_eig''] \<and>
      list_all (\<lambda>e. \<not> is_commit e) es"
    by (simp add: store_done_simps)
  from one two show ?thesis by simp
qed

text \<open>
  C6 as stated fails: on a grid of two cells \<open>crunch_2\<close> evaluates the first cell and
  goes on to the second with no commit in between; the only commits follow the loop.
\<close>

theorem crunch_2_commits_nothing_between_cells:
  "trace (snd (crunch_2 example_ext ''s.h5'' 0 0 0 1 [0] [''train_loss''] [''train_acc'']
      (identity_comm 0 1) 0 (example_args ''-1:1:2'' [] ''weights'') example_evaluator store_2cells)) =
     [Create ''s.h5'' ''train_loss'', Create ''s.h5'' ''train_acc'',
      SetWeights [-1], Eval (-1) 0, SetWeights [1], Eval 1 0,
      Commit ''s.h5'' ''train_loss'', Commit ''s.h5'' ''train_acc'', Flush ''s.h5'']"
  using wp_result [OF crunch_2_on_fresh] by simp

section \<open>Reductions of a straggler\<close>

lemma collectives_simps [simp]:
  "collectives [] = 0"
  "collectives (tr @ tr') = collectives tr + collectives tr'"
  "collectives (e # tr) = (if is_collective e then 1 else 0) + collectives tr"
  by (simp_all add: collectives_def)

lemma since_collectives:
  "since tr0 (\<lambda>e. \<not> is_collective e) tr \<Longrightarrow> collectives tr = collectives tr0"
  by (auto simp: since_def collectives_def list_all_iff filter_empty_conv)

lemma reduce_max_Inr:
  "reduce_max c arr t = (Inr arr', t') \<Longrightarrow> collectives (trace t') = collectives (trace t) + 1"
  by (auto simp: reduce_max_def)

lemma reduce_min_Inr:
  "reduce_min c arr t = (Inr arr', t') \<Longrightarrow> collectives (trace t') = collectives (trace t) + 1"
  by (auto simp: reduce_min_def)

lemma crunch_eval_collectives:
  "crunch_eval ev c net ind dk la t = (Inr la', t') \<Longrightarrow>
   collectives (trace t') = collectives (trace t) + 2"
  by (cases dk; cases la)
     (auto simp: crunch_eval_def evaluate_def emit_def lookup_def ravel_set_def ret_def raise_def
       elim!: seq_InrE dest!: reduce_max_Inr split: option.splits if_splits prod.splits)

lemma crunch_idle_collectives:
  "crunch_idle c lk ak i la t = (Inr la', t') \<Longrightarrow>
   collectives (trace t') = collectives (trace t) + 2"
  by (cases la)
     (auto simp: crunch_idle_def lookup_def ret_def raise_def
       elim!: seq_InrE dest!: reduce_max_Inr split: option.splits)

lemma load_weights_collectives:
  "load_weights ext a net w s d coord t = (Inr net', t') \<Longrightarrow>
   collectives (trace t') = collectives (trace t)"
  by (auto simp: load_weights_def emit_def ret_def elim!: seq_InrE split: if_splits)

lemma crunch_cell_collectives:
  assumes "crunch_cell ext a ev c rank f w s d dls lks aks ic st t = (Inr st', t')"
  shows "collectives (trace t') = collectives (trace t) + 2 * length (zip dls (zip lks aks))"
proof -
  obtain ind coord where ic: "ic = (ind, coord)" by (cases ic) auto
  obtain net la where st: "st = (net, la)" by (cases st) auto
  from assms [unfolded ic st crunch_cell_def] obtain net1 t1 la1 t2 where
    lw: "load_weights ext a net w s d coord t = (Inr net1, t1)"
    and loop: "foreach (crunch_eval ev c net1 ind) (zip dls (zip lks aks)) la t1 = (Inr la1, t2)"
    and wr: "(if rank = 0 then commit_fields f lks aks la1 else ret ()) t2 = (Inr (), t')"
    by (auto simp: ret_def elim!: seq_InrE)
  have "keeps (\<lambda>e. \<not> is_collective e) (\<lambda>_. True)
          (if rank = 0 then commit_fields f lks aks la1 else ret ())"
    by (auto intro!: keeps_commit_fields keeps_ret)
  from keeps_Inr [OF this wr] have "collectives (trace t') = collectives (trace t2)"
    by (rule since_collectives)
  with foreach_count [where f = "\<lambda>t. collectives (trace t)", OF crunch_eval_collectives loop]
    load_weights_collectives [OF lw]
  show ?thesis by simp
qed

lemma py_max_Inr: "py_max ns t = (Inr m, t') \<Longrightarrow> ns \<noteq> [] \<and> m = Max (set ns) \<and> t' = t"
  by (cases ns) (auto simp: py_max_def raise_def ret_def Max.set_eq_fold [symmetric])

lemma crunch_InrE:
  assumes "crunch ext p net w s d dls lks aks c rank a ev t = (Inr net', t')"
  obtains xs ys shp la vals la' la2 ns t1 t2 where
    "length dls = length lks" "length lks = length aks"
    "foreach (load_field \<lparr>hpath = p, hwritable = (rank = 0)\<rparr> shp) (zip lks aks)
       (Map.empty, Map.empty) t = (Inr la, t1)"
    "lks \<noteq> []" "fst la (hd lks) = Some vals"
    "foreach (crunch_cell ext a ev c rank \<lparr>hpath = p, hwritable = (rank = 0)\<rparr> w s d dls lks aks)
       (zip (fst (get_job_indices vals xs ys c)) (fst (snd (get_job_indices vals xs ys c))))
       (net, la) t1 = (Inr (net', la'), t2)"
    "snd (snd (get_job_indices vals xs ys c)) \<noteq> []"
    "foreach (crunch_idle c (last lks) (last aks))
       [0..<Max (set (snd (snd (get_job_indices vals xs ys c)))) -
            length (fst (get_job_indices vals xs ys c))] la' t2 = (Inr la2, t')"
proof -
  from assms have len: "length dls = length lks" "length lks = length aks"
    by (auto simp: crunch_def raise_def split: if_splits)
  with assms have run: "seq (open_surface p rank) (\<lambda>(f, xcoordinates, ycoordinates).
        seq (lift (grid_shape xcoordinates ycoordinates)) (\<lambda>shp.
        seq (foreach (load_field f shp) (zip lks aks) (Map.empty, Map.empty)) (\<lambda>la.
        seq (first_key lks) (\<lambda>k0.
        seq (lookup (fst la) k0) (\<lambda>vals.
        case get_job_indices vals xcoordinates ycoordinates c of (inds, coords, inds_nums) \<Rightarrow>
        seq (foreach (crunch_cell ext a ev c rank f w s d dls lks aks)
               (zip inds coords) (net, la)) (\<lambda>(net', la').
        seq (py_max inds_nums) (\<lambda>m.
        seq (foreach (crunch_idle c (last lks) (last aks))
               [0..<m - length inds] la') (\<lambda>_.
        ret net')))))))) t = (Inr net', t')"
    by (simp add: crunch_def)
  then obtain v t0 where o: "open_surface p rank t = (Inr v, t0)"
    and r1: "(case v of (f, xcoordinates, ycoordinates) \<Rightarrow>
        seq (lift (grid_shape xcoordinates ycoordinates)) (\<lambda>shp.
        seq (foreach (load_field f shp) (zip lks aks) (Map.empty, Map.empty)) (\<lambda>la.
        seq (first_key lks) (\<lambda>k0.
        seq (lookup (fst la) k0) (\<lambda>vals.
        case get_job_indices vals xcoordinates ycoordinates c of (inds, coords, inds_nums) \<Rightarrow>
        seq (foreach (crunch_cell ext a ev c rank f w s d dls lks aks)
               (zip inds coords) (net, la)) (\<lambda>(net', la').
        seq (py_max inds_nums) (\<lambda>m.
        seq (foreach (crunch_idle c (last lks) (last aks))
               [0..<m - length inds] la') (\<lambda>_.
        ret net')))))))) t0 = (Inr net', t')"
    by (rule seq_InrE)
  obtain f xs ys where v: "v = (f, xs, ys)" by (cases v) auto
  from open_surface_Inr [OF o] v have t0: "t0 = t" and f: "f = \<lparr>hpath = p, hwritable = (rank = 0)\<rparr>"
    by auto
  from r1 v t0 f have "\<exists>shp la vals la' la2 t1 t2.
    foreach (load_field \<lparr>hpath = p, hwritable = (rank = 0)\<rparr> shp) (zip lks aks)
       (Map.empty, Map.empty) t = (Inr la, t1) \<and>
    lks \<noteq> [] \<and> fst la (hd lks) = Some vals \<and>
    foreach (crunch_cell ext a ev c rank \<lparr>hpath = p, hwritable = (rank = 0)\<rparr> w s d dls lks aks)
       (zip (fst (get_job_indices vals xs ys c)) (fst (snd (get_job_indices vals xs ys c))))
       (net, la) t1 = (Inr (net', la'), t2) \<and>
    snd (snd (get_job_indices vals xs ys c)) \<noteq> [] \<and>
    foreach (crunch_idle c (last lks) (last aks))
       [0..<Max (set (snd (snd (get_job_indices vals xs ys c)))) -
            length (fst (get_job_indices vals xs ys c))] la' t2 = (Inr la2, t')"
    apply (simp del: last.simps)
    apply (elim seq_InrE)
    apply (clarsimp simp del: last.simps simp: lift_def first_key_def lookup_def ret_def raise_def
        split: list.splits option.splits prod.splits)
    apply (elim seq_InrE)
    apply (clarsimp simp del: last.simps)
    apply (elim seq_InrE)
    apply (clarsimp simp del: last.simps simp: ret_def dest!: py_max_Inr)
    apply (intro exI conjI)
         apply assumption
        apply assumption
       apply simp
      apply simp
     apply simp
    done
  with len that show ?thesis by blast
qed

lemma store_pending_simps:
  "files store_pending ''s.h5'' = Some (contents store_pending \<lparr>hpath = ''s.h5'', hwritable = True\<rparr>)"
  "trace store_pending = []"
  "contents store_pending \<lparr>hpath = ''s.h5'', hwritable = b\<rparr> =
     [''dir_file'' \<mapsto> DStr ''d.h5'',
      ''xcoordinates'' \<mapsto> DArr \<lparr>shape = [3], data = [-1, 0, 1]\<rparr>,
      ''train_loss'' \<mapsto> DArr \<lparr>shape = [3], data = [-1, -1, -1]\<rparr>,
      ''train_acc'' \<mapsto> DArr \<lparr>shape = [3], data = [-1, -1, -1]\<rparr>,
      ''test_loss'' \<mapsto> DArr \<lparr>shape = [3], data = [-1, -1, -1]\<rparr>,
      ''test_acc'' \<mapsto> DArr \<lparr>shape = [3], data = [-1, -1, -1]\<rparr>]"
  by (simp_all add: store_pending_def contents_def)

lemma unfilled_pending: "unfilled \<lparr>shape = [3], data = [-1, -1, -1]\<rparr> = [0, Suc 0, 2]"
  by (simp add: unfilled_def asize_def upt_conv_Cons)

lemma round_robin_pending:
  "round_robin 2 0 [0, Suc 0, 2] = [0, 2]" "round_robin 2 (Suc 0) [0, Suc 0, 2] = [Suc 0]"
  by (simp_all add: round_robin_def upt_conv_Cons)

lemma jobs_pending:
  "get_job_indices \<lparr>shape = [3], data = [-1, -1, -1]\<rparr> \<lparr>shape = [3], data = [-1, 0, 1]\<rparr> None
     (identity_comm 0 2) = ([0, 2], [[-1], [1]], [2, Suc 0])"
  "get_job_indices \<lparr>shape = [3], data = [-1, -1, -1]\<rparr> \<lparr>shape = [3], data = [-1, 0, 1]\<rparr> None
     (identity_comm (Suc 0) 2) = ([Suc 0], [[0]], [2, Suc 0])"
  by (simp_all add: get_job_indices_def unfilled_pending round_robin_pending coord_of_def
      identity_comm_def upt_conv_Cons Let_def)

lemma leader_on_pending:
  "wp (crunch example_ext ''s.h5'' 0 0 0 1 [0, 1] [''train_loss'', ''test_loss'']
         [''train_acc'', ''test_acc''] (identity_comm 0 2) 0
         (example_args ''-1:1:3'' [] ''weights'') example_evaluator)
     (\<lambda>_ t. True) (\<lambda>_. False) store_pending"
  by (simp add: engine_defs wp_eval store_pending_simps jobs_pending example_evaluator_def)

lemma follower_on_pending:
  "wp (crunch example_ext ''s.h5'' 0 0 0 1 [0, 1] [''train_loss'', ''test_loss'']
         [''train_acc'', ''test_acc''] (identity_comm 1 2) 1
         (example_args ''-1:1:3'' [] ''weights'') example_evaluator)
     (\<lambda>_ t. True) (\<lambda>_. False) store_pending"
  by (simp add: engine_defs wp_eval store_pending_simps jobs_pending example_evaluator_def)

lemma crunch_collectives:
  assumes run: "crunch ext p net w s d dls lks aks c rank a ev t = (Inr net', t')"
    and field: "contents t \<lparr>hpath = p, hwritable = (rank = 0)\<rparr> (hd lks) = Some (DArr vals)"
  shows "collectives (trace t') = collectives (trace t) +
           2 * length dls * length (round_robin (comm_size c) (comm_rank c) (unfilled vals)) +
           2 * (Max (set (map (\<lambda>r. length (round_robin (comm_size c) r (unfilled vals)))
                           [0..<comm_size c])) -
                length (round_robin (comm_size c) (comm_rank c) (unfilled vals)))"
proof -
  let ?f = "\<lparr>hpath = p, hwritable = (rank = 0)\<rparr>"
  from run obtain xs ys shp la vals' la' la2 t1 t2 where
    len: "length dls = length lks" "length lks = length aks"
    and load: "foreach (load_field ?f shp) (zip lks aks) (Map.empty, Map.empty) t = (Inr la, t1)"
    and ne: "lks \<noteq> []" and v: "fst la (hd lks) = Some vals'"
    and cells: "foreach (crunch_cell ext a ev c rank ?f w s d dls lks aks)
       (zip (fst (get_job_indices vals' xs ys c)) (fst (snd (get_job_indices vals' xs ys c))))
       (net, la) t1 = (Inr (net', la'), t2)"
    and idle: "foreach (crunch_idle c (last lks) (last aks))
       [0..<Max (set (snd (snd (get_job_indices vals' xs ys c)))) -
            length (fst (get_job_indices vals' xs ys c))] la' t2 = (Inr la2, t')"
    by (rule crunch_InrE)
  from ne len have z: "zip lks aks \<noteq> []" "fst (hd (zip lks aks)) = hd lks"
    by (cases lks; cases aks; auto)+
  from load_loop_reads [OF load field z] v have vals: "vals' = vals" by simp
  have "since (trace t) (\<lambda>e. \<not> is_collective e) (trace t1)"
    by (rule keeps_Inr [OF keeps_foreach_any load]) (simp add: keeps_load_field)
  then have e1: "collectives (trace t1) = collectives (trace t)"
    by (rule since_collectives)
  have step: "collectives (trace u') = collectives (trace u) + 2 * length dls"
    if "crunch_cell ext a ev c rank ?f w s d dls lks aks x st u = (Inr st', u')"
    for x st u st' u'
    using crunch_cell_collectives [OF that] len by simp
  from foreach_count [where f = "\<lambda>t. collectives (trace t)", OF step cells]
  have e2: "collectives (trace t2) = collectives (trace t1) +
      length (round_robin (comm_size c) (comm_rank c) (unfilled vals)) * (2 * length dls)"
    by (simp add: get_job_indices_def Let_def vals)
  from foreach_count [where f = "\<lambda>t. collectives (trace t)", OF crunch_idle_collectives idle]
  have e3: "collectives (trace t') = collectives (trace t2) +
      (Max (set (map (\<lambda>r. length (round_robin (comm_size c) r (unfilled vals)))
                           [0..<comm_size c])) -
       length (round_robin (comm_size c) (comm_rank c) (unfilled vals))) * 2"
    by (simp add: get_job_indices_def Let_def vals)
  from e1 e2 e3 show ?thesis by simp
qed

text \<open>
  C4. A run of \<open>crunch\<close> that returns has issued two reductions per dataloader for each
  of its own cells, and two reductions (those of the last key pair only) for each round
  it idles. With \<open>n\<close> dataloaders, \<open>k\<close> own cells and a longest assignment of \<open>m\<close> cells
  that is \<open>2nk + 2(m - k)\<close>, against \<open>2nm\<close> for the worker with the longest
  assignment: the totals agree only for one dataloader or for equal assignments. The
  loop that keeps the reductions going was left at one key pair when the engine was
  given a list of them.
\<close>

theorem reductions_issued_by_a_worker:
  assumes "crunch ext p net w s d dls lks aks c rank a ev t = (Inr net', t')"
    and "contents t (surface_handle p rank) (hd lks) = Some (DArr vals)"
  shows "collectives (trace t') = collectives (trace t) +
           2 * length dls * length (round_robin (comm_size c) (comm_rank c) (unfilled vals)) +
           2 * (Max (set (map (\<lambda>r. length (round_robin (comm_size c) r (unfilled vals)))
                           [0..<comm_size c])) -
                length (round_robin (comm_size c) (comm_rank c) (unfilled vals)))"
  using assms unfolding surface_handle_def by (rule crunch_collectives)

theorem reductions_issued_by_a_worker_witness:
  "collectives (trace (snd (crunch example_ext ''s.h5'' 0 0 0 1 [0, 1]
      [''train_loss'', ''test_loss''] [''train_acc'', ''test_acc''] (identity_comm 0 2) 0
      (example_args ''-1:1:3'' [] ''weights'') example_evaluator store_pending))) = 8 \<and>
   collectives (trace (snd (crunch example_ext ''s.h5'' 0 0 0 1 [0, 1]
      [''train_loss'', ''test_loss''] [''train_acc'', ''test_acc''] (identity_comm 1 2) 1
      (example_args ''-1:1:3'' [] ''weights'') example_evaluator store_pending))) = 6"
proof -
  let ?a = "example_args ''-1:1:3'' [] ''weights''"
  let ?v = "\<lparr>shape = [3], data = [-1, -1, -1 :: real]\<rparr>"
  let ?r0 = "crunch example_ext ''s.h5'' 0 0 0 1 [0, 1]
      [''train_loss'', ''test_loss''] [''train_acc'', ''test_acc''] (identity_comm 0 2) 0
      ?a example_evaluator store_pending"
  let ?r1 = "crunch example_ext ''s.h5'' 0 0 0 1 [0, 1]
      [''train_loss'', ''test_loss''] [''train_acc'', ''test_acc''] (identity_comm 1 2) 1
      ?a example_evaluator store_pending"
  have r0: "?r0 = (Inr (projr (fst ?r0)), snd ?r0)"
    by (rule returned) (use wp_result [OF leader_on_pending] in simp)
  have r1: "?r1 = (Inr (projr (fst ?r1)), snd ?r1)"
    by (rule returned) (use wp_result [OF follower_on_pending] in simp)
  have c0: "contents store_pending (surface_handle ''s.h5'' 0) (hd [''train_loss'', ''test_loss'']) =
      Some (DArr ?v)"
    and c1: "contents store_pending (surface_handle ''s.h5'' 1) (hd [''train_loss'', ''test_loss'']) =
      Some (DArr ?v)"
    by (simp_all add: surface_handle_def store_pending_simps)
  from reductions_issued_by_a_worker [OF r0 c0] have "collectives (trace (snd ?r0)) = 8"
    by (simp add: store_pending_simps identity_comm_def unfilled_pending round_robin_pending
        upt_conv_Cons)
  moreover from reductions_issued_by_a_worker [OF r1 c1] have "collectives (trace (snd ?r1)) = 6"
    by (simp add: store_pending_simps identity_comm_def unfilled_pending round_robin_pending
        upt_conv_Cons)
  ultimately show ?thesis by simp
qed

section \<open>Who writes to the surface file\<close>

text \<open>
  \<open>unwritten s0 s\<close>: on the way from \<open>s0\<close> to \<open>s\<close> no file has changed and nothing was
  created, committed or flushed. \<open>reader m\<close>: whatever its outcome, \<open>m\<close> leaves every world
  unwritten.
\<close>

definition unwritten :: "('net, 'dl) world \<Rightarrow> ('net, 'dl) world \<Rightarrow> bool" where
  "unwritten s0 s = (files s = files s0 \<and> since (trace s0) (\<lambda>e. \<not> is_write e) (trace s))"

definition reader :: "('a, ('net, 'dl) world) prog \<Rightarrow> bool" where
  "reader m = (\<forall>s0 s. unwritten s0 s \<longrightarrow> wp m (\<lambda>_. unwritten s0) (unwritten s0) s)"

lemma readerD: "reader m \<Longrightarrow> unwritten s0 s \<Longrightarrow> wp m (\<lambda>_. unwritten s0) (unwritten s0) s"
  by (simp add: reader_def)

lemma unwritten_refl: "unwritten s s"
  by (simp add: unwritten_def)

lemma unwritten_emit:
  "unwritten s0 s \<Longrightarrow> \<not> is_write e \<Longrightarrow> unwritten s0 (s\<lparr>trace := trace s @ [e]\<rparr>)"
  by (simp add: unwritten_def)

lemma reader_seq:
  fixes m :: "('a, ('net, 'dl) world) prog"
  assumes "reader m" and "\<And>v. reader (k v)"
  shows "reader (seq m k)"
  unfolding reader_def wp_seq
proof (intro allI impI)
  fix s0 s :: "('net, 'dl) world"
  assume "unwritten s0 s"
  from readerD [OF assms(1) this]
  show "wp m (\<lambda>v. wp (k v) (\<lambda>_. unwritten s0) (unwritten s0)) (unwritten s0) s"
    by (rule wp_mono) (auto intro: readerD [OF assms(2)])
qed

lemma reader_foreach:
  fixes body :: "'x \<Rightarrow> 'b \<Rightarrow> ('b, ('net, 'dl) world) prog"
  assumes "\<And>x a. reader (body x a)"
  shows "reader (foreach body xs acc)"
  unfolding reader_def
proof (intro allI impI)
  fix s0 s :: "('net, 'dl) world"
  assume s: "unwritten s0 s"
  show "wp (foreach body xs acc) (\<lambda>_. unwritten s0) (unwritten s0) s"
    by (rule wp_foreach [where I = "\<lambda>_. unwritten s0"]) (use s in \<open>auto intro: readerD assms\<close>)
qed

lemma reader_ret: "reader (ret v)"
  by (simp add: reader_def wp_ret)

lemma reader_raise: "reader (raise e)"
  by (simp add: reader_def wp_raise)

lemma reader_lift: "reader (lift r)"
  by (simp add: reader_def wp_lift split: sum.splits)

lemma reader_emit: "\<not> is_write e \<Longrightarrow> reader (emit e)"
  by (simp add: reader_def wp_emit unwritten_emit)

lemma reader_h5_has: "reader (h5_has h k)"
  by (simp add: reader_def wp_h5_has)

lemma reader_h5_read: "reader (h5_read h k)"
  by (simp add: reader_def wp_h5_read split: option.splits dataset.splits)

lemma reader_h5_create: "\<not> hwritable h \<Longrightarrow> reader (h5_create h k v)"
  by (simp add: reader_def wp_h5_create)

lemma reader_h5_assign: "\<not> hwritable h \<Longrightarrow> reader (h5_assign h k a)"
  by (simp add: reader_def wp_h5_assign split: option.splits dataset.splits)

lemma reader_lookup: "reader (lookup m k)"
  by (simp add: reader_def wp_lookup split: option.splits)

lemma reader_first_key: "reader (first_key ks)"
  by (simp add: reader_def wp_first_key split: list.splits)

lemma reader_ravel_set: "reader (ravel_set a i v)"
  by (simp add: reader_def wp_ravel_set)

lemma reader_py_max: "reader (py_max ns)"
  by (simp add: reader_def wp_py_max split: list.splits)

lemma reader_reduce_max: "reader (reduce_max c a)"
  by (simp add: reader_def wp_reduce_max unwritten_emit)

lemma reader_reduce_min: "reader (reduce_min c a)"
  by (simp add: reader_def wp_reduce_min unwritten_emit)

lemma reader_evaluate: "reader (evaluate ev net dl)"
  by (simp add: reader_def wp_evaluate unwritten_emit)

lemma reader_solve: "reader (solve ext net dl)"
  by (simp add: reader_def wp_solve unwritten_emit)

lemma reader_load_weights: "reader (load_weights ext a net w s d coord)"
  by (simp add: reader_def wp_load_weights unwritten_emit)

lemmas reader_prims = reader_ret reader_raise reader_lift reader_h5_has reader_h5_read
  reader_h5_create reader_h5_assign reader_lookup reader_first_key reader_ravel_set
  reader_py_max reader_reduce_max reader_reduce_min reader_evaluate reader_solve
  reader_load_weights

lemma reader_open_surface:
  assumes "\<And>xs ys. reader (k (\<lparr>hpath = p, hwritable = (rank = 0)\<rparr>, xs, ys))"
  shows "reader (seq (open_surface p rank) k)"
  unfolding reader_def wp_seq wp_open_surface_eq
  by (auto split: option.splits dataset.splits intro: readerD [OF assms])

lemma reader_load_field: "\<not> hwritable f \<Longrightarrow> reader (load_field f shp keys la)"
  unfolding load_field_def
  by (auto split: prod.splits intro!: reader_seq reader_prims)

lemma reader_load_eigs: "rank \<noteq> 0 \<Longrightarrow> reader (load_eigs f rank xs ys)"
  unfolding load_eigs_def
  by (auto split: prod.splits intro!: reader_seq reader_prims)

lemma reader_crunch_cell:
  "rank \<noteq> 0 \<Longrightarrow> reader (crunch_cell ext a ev c rank f w s d dls lks aks ic st)"
  unfolding crunch_cell_def crunch_eval_def
  by (auto split: prod.splits intro!: reader_seq reader_foreach reader_prims)

lemma reader_crunch_idle: "reader (crunch_idle c lk ak i la)"
  unfolding crunch_idle_def
  by (auto split: prod.splits intro!: reader_seq reader_prims)

lemma reader_hessian_cell:
  "rank \<noteq> 0 \<Longrightarrow> reader (hessian_cell ext a c rank f w s d dl ic st)"
  unfolding hessian_cell_def
  by (auto split: prod.splits intro!: reader_seq reader_prims)

lemma reader_hessian_idle: "reader (hessian_idle c i mm)"
  unfolding hessian_idle_def
  by (auto split: prod.splits intro!: reader_seq reader_prims)

lemma reader_crunch:
  "rank \<noteq> 0 \<Longrightarrow> reader (crunch ext p net w s d dls lks aks c rank a ev)"
  unfolding crunch_def
  by (auto split: prod.splits
      intro!: reader_open_surface reader_seq reader_foreach reader_prims reader_load_field
        reader_crunch_cell reader_crunch_idle)

lemma reader_crunch_hessian_eigs:
  "rank \<noteq> 0 \<Longrightarrow> reader (crunch_hessian_eigs ext p net w s d dl c rank a)"
  unfolding crunch_hessian_eigs_def
  by (auto split: prod.splits
      intro!: reader_open_surface reader_seq reader_foreach reader_prims reader_load_eigs
        reader_hessian_cell reader_hessian_idle)

lemma reader_run:
  assumes "reader m"
  shows "files (snd (m s)) = files s \<and> since (trace s) (\<lambda>e. \<not> is_write e) (trace (snd (m s)))"
  using readerD [OF assms unwritten_refl, of s]
  by (cases "m s"; cases "fst (m s)") (auto simp: wp_def unwritten_def)

lemma follower_stops_at_field_creation:
  assumes "rank \<noteq> 0"
    and "files t p = Some g"
    and "g ''xcoordinates'' = Some (DArr xs)" and "g ''ycoordinates'' = None"
    and "g lk = None"
    and "length dls = length lks" and "length lks = length aks"
  shows "crunch ext p net w s d (dl # dls) (lk # lks) (ak # aks) c rank a ev t =
           (Inl (NoWriteIntent lk), t)"
  using assms
  by (simp add: crunch_def open_surface_def seq_def h5_open_def h5_read_def h5_has_def
      contents_def ret_def lift_def grid_shape_def load_field_def h5_create_def)

lemma leader_creates_fields:
  assumes "hwritable f" "contents t f lk = None" "contents t f ak = None" "lk \<noteq> ak"
  shows "fst (load_field f shp (lk, ak) (L, A) t) =
           Inr (L(lk \<mapsto> full shp (-1)), A(ak \<mapsto> full shp (-1))) \<and>
         trace (snd (load_field f shp (lk, ak) (L, A) t)) =
           trace t @ [Create (hpath f) lk, Create (hpath f) ak] \<and>
         contents (snd (load_field f shp (lk, ak) (L, A) t)) f =
           (contents t f)(lk \<mapsto> DArr (full shp (-1)), ak \<mapsto> DArr (full shp (-1)))"
  using assms
  by (simp add: load_field_def seq_def h5_has_def h5_create_def ret_def)

text \<open>
  C3. Every worker opens the surface file for writing exactly when its rank is 0. A
  worker of another rank leaves every file as it was and creates, commits and flushes
  nothing, in every run of \<open>crunch\<close> and of \<open>crunch_hessian_eigs\<close>, whether the run returns
  or raises. At the field-creation step of \<open>crunch\<close> such a worker runs the same
  \<open>f[loss_key] = ...\<close> as the leader: the read-only file refuses it and the run stops
  there with nothing written, while the leader's step creates both fields.
\<close>

theorem only_the_leader_writes:
  "(\<forall>f xs ys t1. open_surface p rank t = (Inr (f, xs, ys), t1) \<longrightarrow> hwritable f = (rank = 0)) \<and>
   (rank \<noteq> 0 \<longrightarrow>
      (\<forall>r \<in> {crunch ext p net w s d dls lks aks c rank a ev t,
              crunch_hessian_eigs ext p net w s d dl c rank a t}.
         files (snd r) = files t \<and> since (trace t) (\<lambda>e. \<not> is_write e) (trace (snd r)))) \<and>
   (rank \<noteq> 0 \<longrightarrow> files t p = Some g \<longrightarrow> g ''xcoordinates'' = Some (DArr xs) \<longrightarrow>
      g ''ycoordinates'' = None \<longrightarrow> g lk = None \<longrightarrow>
      length dls = length lks \<longrightarrow> length lks = length aks \<longrightarrow>
      crunch ext p net w s d (dl # dls) (lk # lks) (ak # aks) c rank a ev t =
        (Inl (NoWriteIntent lk), t)) \<and>
   (hwritable h \<longrightarrow> contents t h lk = None \<longrightarrow> contents t h ak = None \<longrightarrow> lk \<noteq> ak \<longrightarrow>
      fst (load_field h shp (lk, ak) (L, A) t) =
        Inr (L(lk \<mapsto> full shp (-1)), A(ak \<mapsto> full shp (-1))) \<and>
      trace (snd (load_field h shp (lk, ak) (L, A) t)) =
        trace t @ [Create (hpath h) lk, Create (hpath h) ak] \<and>
      contents (snd (load_field h shp (lk, ak) (L, A) t)) h =
        (contents t h)(lk \<mapsto> DArr (full shp (-1)), ak \<mapsto> DArr (full shp (-1))))"
proof -
  have opens: "\<forall>f xs ys t1. open_surface p rank t = (Inr (f, xs, ys), t1) \<longrightarrow>
      hwritable f = (rank = 0)"
    by (auto dest: open_surface_Inr)
  have quiet: "rank \<noteq> 0 \<longrightarrow>
      (\<forall>r \<in> {crunch ext p net w s d dls lks aks c rank a ev t,
              crunch_hessian_eigs ext p net w s d dl c rank a t}.
         files (snd r) = files t \<and> since (trace t) (\<lambda>e. \<not> is_write e) (trace (snd r)))"
    using reader_run [OF reader_crunch, of rank ext p net w s d dls lks aks c a ev t]
      reader_run [OF reader_crunch_hessian_eigs, of rank ext p net w s d dl c a t]
    by simp
  have refused: "rank \<noteq> 0 \<longrightarrow> files t p = Some g \<longrightarrow> g ''xcoordinates'' = Some (DArr xs) \<longrightarrow>
      g ''ycoordinates'' = None \<longrightarrow> g lk = None \<longrightarrow>
      length dls = length lks \<longrightarrow> length lks = length aks \<longrightarrow>
      crunch ext p net w s d (dl # dls) (lk # lks) (ak # aks) c rank a ev t =
        (Inl (NoWriteIntent lk), t)"
    by (intro impI follower_stops_at_field_creation)
  have leader: "hwritable h \<longrightarrow> contents t h lk = None \<longrightarrow> contents t h ak = None \<longrightarrow> lk \<noteq> ak \<longrightarrow>
      fst (load_field h shp (lk, ak) (L, A) t) =
        Inr (L(lk \<mapsto> full shp (-1)), A(ak \<mapsto> full shp (-1))) \<and>
      trace (snd (load_field h shp (lk, ak) (L, A) t)) =
        trace t @ [Create (hpath h) lk, Create (hpath h) ak] \<and>
      contents (snd (load_field h shp (lk, ak) (L, A) t)) h =
        (contents t h)(lk \<mapsto> DArr (full shp (-1)), ak \<mapsto> DArr (full shp (-1)))"
    by (intro impI leader_creates_fields)
  from opens quiet refused leader show ?thesis by (intro conjI)
qed

theorem only_the_leader_writes_witness:
  "(1::nat) \<noteq> 0 \<and>
   \<not> isl (fst (crunch example_ext ''s.h5'' 0 0 0 1 [0, 1] [''train_loss'', ''test_loss'']
      [''train_acc'', ''test_acc''] (identity_comm 1 2) 1
      (example_args ''-1:1:3'' [] ''weights'') example_evaluator store_pending)) \<and>
   files (snd (crunch example_ext ''s.h5'' 0 0 0 1 [0, 1] [''train_loss'', ''test_loss'']
      [''train_acc'', ''test_acc''] (identity_comm 1 2) 1
      (example_args ''-1:1:3'' [] ''weights'') example_evaluator store_pending)) =
     files store_pending \<and>
   since [] (\<lambda>e. \<not> is_write e)
     (trace (snd (crunch example_ext ''s.h5'' 0 0 0 1 [0, 1] [''train_loss'', ''test_loss'']
      [''train_acc'', ''test_acc''] (identity_comm 1 2) 1
      (example_args ''-1:1:3'' [] ''weights'') example_evaluator store_pending))) \<and>
   crunch example_ext ''s.h5'' 0 0 0 1 [0] [''train_loss''] [''train_acc'']
     (identity_comm 1 2) 1 (example_args ''-1:1:2'' [] ''weights'') example_evaluator store_2cells =
     (Inl (NoWriteIntent ''train_loss''), store_2cells) \<and>
   trace (snd (load_field \<lparr>hpath = ''s.h5'', hwritable = True\<rparr> [2] (''train_loss'', ''train_acc'')
      (Map.empty, Map.empty) store_2cells)) =
     [Create ''s.h5'' ''train_loss'', Create ''s.h5'' ''train_acc'']"
proof -
  let ?a = "example_args ''-1:1:3'' [] ''weights''"
  let ?r1 = "crunch example_ext ''s.h5'' 0 0 0 1 [0, 1]
      [''train_loss'', ''test_loss''] [''train_acc'', ''test_acc''] (identity_comm 1 2) 1
      ?a example_evaluator store_pending"
  let ?g = "[''dir_file'' \<mapsto> DStr ''d.h5'',
             ''xcoordinates'' \<mapsto> DArr \<lparr>shape = [2], data = [-1, 1 :: real]\<rparr>]"
  let ?h = "\<lparr>hpath = ''s.h5'', hwritable = True\<rparr>"
  have one: "(1::nat) \<noteq> 0" by simp
  have ok: "\<not> isl (fst ?r1)"
    using wp_result [OF follower_on_pending] by simp
  note pending = only_the_leader_writes [where rank = 1 and p = "''s.h5''" and t = store_pending
      and ext = example_ext and net = 0 and w = 0 and s = 0 and d = 1 and dls = "[0, 1]"
      and lks = "[''train_loss'', ''test_loss'']" and aks = "[''train_acc'', ''test_acc'']"
      and c = "identity_comm 1 2" and a = ?a and ev = example_evaluator,
      THEN conjunct2, THEN conjunct1, rule_format, OF one]
  have quiet: "files (snd ?r1) = files store_pending \<and>
      since (trace store_pending) (\<lambda>e. \<not> is_write e) (trace (snd ?r1))"
    by (rule pending) (simp only: insert_iff refl simp_thms)
  then have q: "files (snd ?r1) = files store_pending"
    "since [] (\<lambda>e. \<not> is_write e) (trace (snd ?r1))"
    by (simp_all only: store_pending_simps simp_thms)
  have pre: "files store_2cells ''s.h5'' = Some ?g"
    "?g ''xcoordinates'' = Some (DArr \<lparr>shape = [2], data = [-1, 1]\<rparr>)"
    "?g ''ycoordinates'' = None" "?g ''train_loss'' = None"
    "length ([] :: nat list) = length ([] :: string list)"
    "length ([] :: string list) = length ([] :: string list)"
    by (simp_all add: store_2cells_def)
  note refused = only_the_leader_writes [where rank = 1 and p = "''s.h5''" and t = store_2cells
      and ext = example_ext and net = 0 and w = 0 and s = 0 and d = 1 and dls = "[]"
      and lks = "[]" and aks = "[]" and dl = 0 and lk = "''train_loss''" and ak = "''train_acc''"
      and c = "identity_comm 1 2" and a = "example_args ''-1:1:2'' [] ''weights''"
      and ev = example_evaluator,
      THEN conjunct2, THEN conjunct2, THEN conjunct1, rule_format, OF one pre]
  have free: "hwritable ?h" "contents store_2cells ?h ''train_loss'' = None"
    "contents store_2cells ?h ''train_acc'' = None" "''train_loss'' \<noteq> ''train_acc''"
    by (simp_all add: store_2cells_simps)
  note leader = only_the_leader_writes [where t = store_2cells and h = ?h
      and lk = "''train_loss''" and ak = "''train_acc''" and shp = "[2]"
      and L = Map.empty and A = Map.empty,
      THEN conjunct2, THEN conjunct2, THEN conjunct2, rule_format, OF free,
      THEN conjunct2, THEN conjunct1]
  have created: "trace (snd (load_field ?h [2] (''train_loss'', ''train_acc'')
      (Map.empty, Map.empty) store_2cells)) =
     [Create ''s.h5'' ''train_loss'', Create ''s.h5'' ''train_acc'']"
    using leader by (simp add: store_2cells_simps)
  from one ok q refused created show ?thesis by (intro conjI)
qed

section \<open>Example 1: a grid of five cells\<close>

lemma linspace_example: "linspace (-1) 1 5 = Inr \<lparr>shape = [5], data = [-1, -1 / 2, 0, 1 / 2, 1]\<rparr>"
  by (simp add: linspace_def Let_def upt_conv_Cons)

lemma setup_fresh_1d:
  assumes "files t p = None" "y_str a = []" "linspace (xmin a) (xmax a) (xnum a) = Inr xs"
  shows "setup_surface_file a p dfile t =
        (Inr (Some p),
         t\<lparr>files := (files t)(p \<mapsto> [''dir_file'' \<mapsto> DStr dfile, ''xcoordinates'' \<mapsto> DArr xs]),
           trace := trace t @ [Create p ''dir_file'', Create p ''xcoordinates'']\<rparr>)"
  using assms
  by (simp add: setup_surface_file_def seq_def path_exists_def h5_open_def
        h5_has_def contents_def ret_def truthy_def h5_create_def lift_def)

lemma crunch_2_example:
  "wp (crunch_2 ext p net w s d [dl] [''train_loss''] [''train_acc''] c 0 a ev)
     (\<lambda>_ t2. evaluations (trace t2) = evaluations (trace t) + 5 \<and>
        (\<exists>n1 n2 n3 n4 n5. contents t2 \<lparr>hpath = p, hwritable = True\<rparr> ''train_loss'' =
           Some (DArr \<lparr>shape = [5], data = [fst (ev n1 dl), fst (ev n2 dl), fst (ev n3 dl),
             fst (ev n4 dl), fst (ev n5 dl)]\<rparr>)))
     (\<lambda>_. False)
     (t\<lparr>files := (files t)(p \<mapsto> [''dir_file'' \<mapsto> DStr dfile,
          ''xcoordinates'' \<mapsto> DArr \<lparr>shape = [5], data = [-1, -1 / 2, 0, 1 / 2, 1]\<rparr>]),
        trace := trace t @ [Create p ''dir_file'', Create p ''xcoordinates'']\<rparr>)"
  apply (simp add: engine_defs wp_eval)
  apply (intro conjI impI)
    apply (simp_all add: eval_nat_numeral)
    apply blast+
  done


text \<open>
  C8. On a path that holds no file yet, with the resolution \<open>xmin = -1\<close>, \<open>xmax = 1\<close>,
  \<open>xnum = 5\<close> and no y axis, \<open>setup_surface_file\<close> writes the x axis
  \<open>[-1, -0.5, 0, 0.5, 1]\<close>, and \<open>crunch_2\<close> with one dataloader then returns after five
  evaluator calls, with a \<open>train_loss\<close> array of length 5 in the file whose every entry
  is a loss the evaluator returned; so none of them is \<open>-1\<close> unless the evaluator itself
  returns \<open>-1\<close> as a loss.
\<close>

theorem example_1:
  assumes "files t p = None"
    and "xmin a = -1" and "xmax a = 1" and "xnum a = 5" and "y_str a = []"
  shows "\<exists>t1 net' t2 losses.
     setup_surface_file a p dfile t = (Inr (Some p), t1) \<and>
     contents t1 (surface_handle p 0) ''xcoordinates'' =
       Some (DArr \<lparr>shape = [5], data = [-1, -1 / 2, 0, 1 / 2, 1]\<rparr>) \<and>
     crunch_2 ext p net w s d [dl] [''train_loss''] [''train_acc''] c 0 a ev t1 = (Inr net', t2) \<and>
     evaluations (trace t2) = evaluations (trace t) + 5 \<and>
     contents t2 (surface_handle p 0) ''train_loss'' = Some (DArr \<lparr>shape = [5], data = losses\<rparr>) \<and>
     length losses = 5 \<and>
     (\<forall>v \<in> set losses. \<exists>n. v = fst (ev n dl)) \<and>
     ((\<forall>n. fst (ev n dl) \<noteq> -1) \<longrightarrow> -1 \<notin> set losses)"
proof -
  let ?xs = "\<lparr>shape = [5], data = [-1, -1 / 2, 0, 1 / 2, 1 :: real]\<rparr>"
  let ?t1 = "t\<lparr>files := (files t)(p \<mapsto> [''dir_file'' \<mapsto> DStr dfile, ''xcoordinates'' \<mapsto> DArr ?xs]),
           trace := trace t @ [Create p ''dir_file'', Create p ''xcoordinates'']\<rparr>"
  let ?r = "crunch_2 ext p net w s d [dl] [''train_loss''] [''train_acc''] c 0 a ev ?t1"
  from assms have created: "setup_surface_file a p dfile t = (Inr (Some p), ?t1)"
    by (intro setup_fresh_1d) (simp_all add: linspace_example)
  have axis: "contents ?t1 (surface_handle p 0) ''xcoordinates'' = Some (DArr ?xs)"
    by (simp add: surface_handle_def)
  from wp_result [OF crunch_2_example [of ext p net w s d dl c a ev t dfile]]
  have ok: "\<not> isl (fst ?r)"
    and ev5: "evaluations (trace (snd ?r)) = evaluations (trace t) + 5"
    and arr: "\<exists>n1 n2 n3 n4 n5. contents (snd ?r) \<lparr>hpath = p, hwritable = True\<rparr> ''train_loss'' =
           Some (DArr \<lparr>shape = [5], data = [fst (ev n1 dl), fst (ev n2 dl), fst (ev n3 dl),
             fst (ev n4 dl), fst (ev n5 dl)]\<rparr>)"
    by simp_all
  from arr obtain n1 n2 n3 n4 n5 where
    loss: "contents (snd ?r) (surface_handle p 0) ''train_loss'' =
           Some (DArr \<lparr>shape = [5], data = [fst (ev n1 dl), fst (ev n2 dl), fst (ev n3 dl),
             fst (ev n4 dl), fst (ev n5 dl)]\<rparr>)"
    by (auto simp: surface_handle_def)
  let ?ls = "[fst (ev n1 dl), fst (ev n2 dl), fst (ev n3 dl), fst (ev n4 dl), fst (ev n5 dl)]"
  have each: "\<forall>v \<in> set ?ls. \<exists>n. v = fst (ev n dl)" by auto
  then have sent: "(\<forall>n. fst (ev n dl) \<noteq> -1) \<longrightarrow> -1 \<notin> set ?ls" by metis
  have len: "length ?ls = 5" by simp
  from returned [OF ok] have run: "?r = (Inr (projr (fst ?r)), snd ?r)" .
  show ?thesis
    using created axis run ev5 loss len each sent by blast
qed

theorem example_1_witness:
  "\<exists>t1 net' t2 losses.
     setup_surface_file (parsed_args ''-1:1:5'' [] ''weights'') ''s.h5'' ''d.h5'' empty_world =
       (Inr (Some ''s.h5''), t1) \<and>
     contents t1 (surface_handle ''s.h5'' 0) ''xcoordinates'' =
       Some (DArr \<lparr>shape = [5], data = [-1, -1 / 2, 0, 1 / 2, 1]\<rparr>) \<and>
     crunch_2 example_ext ''s.h5'' 0 0 0 1 [0] [''train_loss''] [''train_acc''] (identity_comm 0 1) 0
       (parsed_args ''-1:1:5'' [] ''weights'') example_evaluator t1 = (Inr net', t2) \<and>
     evaluations (trace t2) = 5 \<and>
     contents t2 (surface_handle ''s.h5'' 0) ''train_loss'' = Some (DArr \<lparr>shape = [5], data = losses\<rparr>) \<and>
     length losses = 5 \<and> -1 \<notin> set losses"
proof -
  let ?a = "parsed_args ''-1:1:5'' [] ''weights''"
  have a: "xmin ?a = -1" "xmax ?a = 1" "xnum ?a = 5" "y_str ?a = []"
    by (simp_all add: parsed_args_def check_resolution_def parse3_def float_literal_def
        decimal_def digit_def Let_def example_args_def truthy_def py_int_def)
  have fresh: "files empty_world ''s.h5'' = None" by (simp add: empty_world_def)
  have pos: "\<forall>n. fst (example_evaluator n 0) \<noteq> -1"
  proof
    fix n :: real
    have "0 \<le> n * n" by simp
    then have "n * n \<noteq> -1" by linarith
    then show "fst (example_evaluator n 0) \<noteq> -1" by (simp add: example_evaluator_def)
  qed
  from example_1 [OF fresh a, of "''d.h5''" example_ext 0 0 0 1 0 "identity_comm 0 1"
      example_evaluator] pos
  show ?thesis by (simp add: empty_world_def) blast
qed

section \<open>A direction type that is neither \<open>weights\<close> nor \<open>states\<close>\<close>

subsection \<open>No perturbation in any variant\<close>









subsection \<open>What one cell records\<close>
















subsection \<open>What the variants without reduction record\<close>








subsection \<open>What the synchronized variants record\<close>























end
